theory Spec2Isabelle
  imports Main
begin

section \<open>Python values used by the bot\<close>

text \<open>
  A Python \<^verbatim>\<open>str\<close> is a sequence of Unicode code points; it is modelled as a list of
  naturals. \<open>str\<close> turns an ASCII literal into such a list.
\<close>

type_synonym ustr = "nat list"

definition str :: "string \<Rightarrow> ustr" where
  "str s = map of_char s"

text \<open>
  The exceptions that occur. The first four are the classes of \<^verbatim>\<open>models.py\<close>;
  \<open>Exception msg\<close> is a bare \<^verbatim>\<open>Exception(msg)\<close>; the others are Python's built-in ones
  and the failure of an HTTP request.
\<close>

datatype exn =
    CategoryError
  | SourceError
  | DestinationError
  | StartError
  | Exception string
  | KeyError
  | IndexError
  | ValueError
  | SyntaxError
  | ZeroDivisionError
  | TypeError
  | OverflowError
  | RequestException

section \<open>The in-memory state of \<^verbatim>\<open>FireFlyTelegram\<close>\<close>

text \<open>
  Every attribute set in \<^verbatim>\<open>__init__\<close> is a dictionary keyed by the user id. The value of
  \<open>account_ids\<close> is itself a dictionary, from account name to identifier; it is kept as
  the list of its items in insertion order, which is the order \<^verbatim>\<open>json.dumps\<close> writes.
\<close>

record bot =
  ff_url :: "ustr \<rightharpoonup> ustr"
  ff_api :: "ustr \<rightharpoonup> ustr"
  default_accounts :: "ustr \<rightharpoonup> ustr"
  categories :: "ustr \<rightharpoonup> ustr list"
  source_accounts :: "ustr \<rightharpoonup> ustr list"
  destination_accounts :: "ustr \<rightharpoonup> ustr list"
  asset_accounts :: "ustr \<rightharpoonup> ustr list"
  expense_accounts :: "ustr \<rightharpoonup> ustr list"
  revenue_accounts :: "ustr \<rightharpoonup> ustr list"
  account_ids :: "ustr \<rightharpoonup> (ustr \<times> ustr) list"

section \<open>Name resolution: \<^verbatim>\<open>get_category\<close>, \<^verbatim>\<open>get_source_account\<close>, \<^verbatim>\<open>get_destination_account\<close>\<close>

text \<open>
  \<^verbatim>\<open>list.index(x)\<close>: the position of the first element equal to \<open>x\<close>; \<open>None\<close> stands for
  the \<^verbatim>\<open>ValueError\<close> Python raises when there is none.
\<close>

fun index :: "'a list \<Rightarrow> 'a \<Rightarrow> nat option" where
  "index [] x = None"
| "index (y # ys) x = (if y = x then Some 0 else map_option Suc (index ys x))"

text \<open>
  The three resolvers share one body,
  \<^verbatim>\<open>names[user][[slugify(i) for i in names[user]].index(slugify(token))]\<close>
  inside \<^verbatim>\<open>try\<close>, with \<^verbatim>\<open>ValueError\<close> turned into the role's error and \<^verbatim>\<open>KeyError\<close> into
  \<^verbatim>\<open>StartError\<close>. \<open>lookup\<close> is that body; \<open>slugify\<close> (the function of the
  python-slugify package) is a parameter.
\<close>

definition lookup ::
  "(ustr \<Rightarrow> ustr) \<Rightarrow> exn \<Rightarrow> (ustr \<rightharpoonup> ustr list) \<Rightarrow> ustr \<Rightarrow> ustr \<Rightarrow> exn + ustr" where
  "lookup slugify not_found names token user =
     (case names user of
        None \<Rightarrow> Inl StartError
      | Some cands \<Rightarrow>
          (case index (map slugify cands) (slugify token) of
             None \<Rightarrow> Inl not_found
           | Some i \<Rightarrow> Inr (cands ! i)))"

definition get_category :: "(ustr \<Rightarrow> ustr) \<Rightarrow> bot \<Rightarrow> ustr \<Rightarrow> ustr \<Rightarrow> exn + ustr" where
  "get_category slugify self category user =
     lookup slugify CategoryError (categories self) category user"

definition get_source_account :: "(ustr \<Rightarrow> ustr) \<Rightarrow> bot \<Rightarrow> ustr \<Rightarrow> ustr \<Rightarrow> exn + ustr" where
  "get_source_account slugify self account user =
     lookup slugify SourceError (source_accounts self) account user"

definition get_destination_account ::
  "(ustr \<Rightarrow> ustr) \<Rightarrow> bot \<Rightarrow> ustr \<Rightarrow> ustr \<Rightarrow> exn + ustr" where
  "get_destination_account slugify self account user =
     lookup slugify DestinationError (destination_accounts self) account user"

section \<open>Python's \<^verbatim>\<open>eval\<close> on the strings \<^verbatim>\<open>safe_math_eval\<close> lets through\<close>

text \<open>
  \<^verbatim>\<open>safe_math_eval\<close> hands a string over the characters \<^verbatim>\<open>0123456789+-*(). /\<close> to the
  built-in \<^verbatim>\<open>eval\<close>. The model follows CPython on that alphabet: the tokenizer, the
  expression grammar (sums, terms, unary signs, \<^verbatim>\<open>**\<close>, parentheses, and the calls, empty
  tuple and \<^verbatim>\<open>...\<close> that the alphabet can also spell) and left-to-right evaluation over
  unbounded integers. Floating-point arithmetic is not computed: the float operations
  are parameters (\<open>float_ops\<close>). The interpreter's resource limits (nesting depth,
  digits of a literal, memory) are not modelled.
\<close>

datatype token =
    TInt nat | TFloat ustr | TEllipsis
  | TPlus | TMinus | TStar | TDStar | TSlash | TDSlash | TLPar | TRPar

definition is_digit :: "nat \<Rightarrow> bool" where
  "is_digit c \<longleftrightarrow> 48 \<le> c \<and> c \<le> 57"

definition dec :: "ustr \<Rightarrow> nat" where
  "dec ds = foldl (\<lambda>a c. 10 * a + (c - 48)) 0 ds"

text \<open>
  Code points: 32 space, 40 \<^verbatim>\<open>(\<close>, 41 \<^verbatim>\<open>)\<close>, 42 \<^verbatim>\<open>*\<close>, 43 \<^verbatim>\<open>+\<close>, 45 \<^verbatim>\<open>-\<close>, 46 \<^verbatim>\<open>.\<close>,
  47 \<^verbatim>\<open>/\<close>, 48 to 57 the digits. A decimal integer literal with a leading zero and a
  nonzero digit, a dot that starts neither a fraction nor \<^verbatim>\<open>...\<close>, and any character
  outside the alphabet are errors (\<open>None\<close>).
\<close>

function tokenize :: "ustr \<Rightarrow> token list option" where
  "tokenize [] = Some []"
| "tokenize (c # cs) =
     (if c = 32 then tokenize cs
      else if is_digit c then
        (let ds = c # takeWhile is_digit cs; r = dropWhile is_digit cs in
         if r \<noteq> [] \<and> hd r = 46 then
           map_option ((#) (TFloat (ds @ 46 # takeWhile is_digit (tl r))))
             (tokenize (dropWhile is_digit (tl r)))
         else if hd ds = 48 \<and> (\<exists>d \<in> set ds. d \<noteq> 48) then None
         else map_option ((#) (TInt (dec ds))) (tokenize r))
      else if c = 46 then
        (if cs \<noteq> [] \<and> is_digit (hd cs) then
           map_option ((#) (TFloat (46 # takeWhile is_digit cs)))
             (tokenize (dropWhile is_digit cs))
         else if take 2 cs = [46, 46] then map_option ((#) TEllipsis) (tokenize (drop 2 cs))
         else None)
      else if c = 42 then
        (if cs \<noteq> [] \<and> hd cs = 42 then map_option ((#) TDStar) (tokenize (tl cs))
         else map_option ((#) TStar) (tokenize cs))
      else if c = 47 then
        (if cs \<noteq> [] \<and> hd cs = 47 then map_option ((#) TDSlash) (tokenize (tl cs))
         else map_option ((#) TSlash) (tokenize cs))
      else if c = 43 then map_option ((#) TPlus) (tokenize cs)
      else if c = 45 then map_option ((#) TMinus) (tokenize cs)
      else if c = 40 then map_option ((#) TLPar) (tokenize cs)
      else if c = 41 then map_option ((#) TRPar) (tokenize cs)
      else None)"
  by pat_completeness auto
termination
proof -
  have twice: "length (dropWhile is_digit (tl (dropWhile is_digit cs))) < Suc (length cs)"
    for cs :: ustr
  proof -
    have "length (dropWhile is_digit (tl (dropWhile is_digit cs)))
            \<le> length (tl (dropWhile is_digit cs))"
      by (rule length_dropWhile_le)
    also have "\<dots> \<le> length (dropWhile is_digit cs)"
      by simp
    also have "\<dots> \<le> length cs"
      by (rule length_dropWhile_le)
    finally show ?thesis
      by simp
  qed
  show ?thesis
    by (relation "measure length") (auto simp: le_imp_less_Suc length_dropWhile_le twice)
qed

datatype unop = UAdd | USub

datatype binop = Add | Sub | Mult | Div | FloorDiv | Pow

text \<open>
  The argument of a call: \<^verbatim>\<open>f(e)\<close>, \<^verbatim>\<open>f(*e)\<close> or \<^verbatim>\<open>f(**e)\<close> (the alphabet has no comma, so
  there is at most one).
\<close>

datatype argkind = Plain | Starred | DoubleStarred

datatype expr =
    Num int
  | FloatLit ustr
  | EllipsisLit
  | EmptyTuple
  | UnaryOp unop expr
  | BinOp binop expr expr
  | Call expr "(argkind \<times> expr) option"

text \<open>
  Parsing one parenthesis level. Its tokens have become items: an atom, an operator, or
  an inner parenthesised group that is parsed already (\<open>None\<close> for \<^verbatim>\<open>()\<close>).
\<close>

datatype item = IAtom expr | IGroup "(argkind \<times> expr) option" | IOp token

datatype pitem = P expr | Op token

text \<open>
  \<open>primaries\<close>: an atom followed by groups is a chain of calls; a group that follows
  no atom is a parenthesised expression or the empty tuple; two atoms side by side are
  a syntax error.
\<close>

fun primaries :: "expr option \<Rightarrow> item list \<Rightarrow> pitem list option" where
  "primaries None [] = Some []"
| "primaries (Some e) [] = Some [P e]"
| "primaries None (IAtom a # r) = primaries (Some a) r"
| "primaries (Some e) (IAtom a # r) = None"
| "primaries None (IGroup None # r) = primaries (Some EmptyTuple) r"
| "primaries None (IGroup (Some (Plain, a)) # r) = primaries (Some a) r"
| "primaries None (IGroup (Some (_, a)) # r) = None"
| "primaries (Some e) (IGroup g # r) = primaries (Some (Call e g)) r"
| "primaries None (IOp t # r) = map_option ((#) (Op t)) (primaries None r)"
| "primaries (Some e) (IOp t # r) = map_option (\<lambda>ps. P e # Op t # ps) (primaries None r)"

text \<open>
  \<open>split_binops\<close>: an operator other than \<^verbatim>\<open>**\<close> that follows a primary is binary and
  ends the current factor; the result is the first factor's items and the list of
  (binary operator, items of the factor after it).
\<close>

fun split_binops :: "bool \<Rightarrow> pitem list \<Rightarrow> pitem list \<times> (token \<times> pitem list) list" where
  "split_binops after_primary [] = ([], [])"
| "split_binops after_primary (P e # r) =
     (case split_binops True r of (c, cs) \<Rightarrow> (P e # c, cs))"
| "split_binops after_primary (Op t # r) =
     (case split_binops False r of
        (c, cs) \<Rightarrow> if after_primary \<and> t \<noteq> TDStar then ([], (t, c) # cs) else (Op t # c, cs))"

text \<open>
  \<open>factor\<close>: unary signs, then a primary, then optionally \<^verbatim>\<open>**\<close> and another factor
  (so \<^verbatim>\<open>-2**2\<close> is \<^verbatim>\<open>-(2**2)\<close> and \<^verbatim>\<open>2**-1\<close> is allowed).
\<close>

fun factor :: "pitem list \<Rightarrow> expr option" where
  "factor (Op TPlus # r) = map_option (UnaryOp UAdd) (factor r)"
| "factor (Op TMinus # r) = map_option (UnaryOp USub) (factor r)"
| "factor [P e] = Some e"
| "factor (P e # Op TDStar # r) = map_option (BinOp Pow e) (factor r)"
| "factor _ = None"

fun binop_of :: "token \<Rightarrow> binop" where
  "binop_of TPlus = Add"
| "binop_of TMinus = Sub"
| "binop_of TStar = Mult"
| "binop_of TSlash = Div"
| "binop_of TDSlash = FloorDiv"
| "binop_of _ = Pow"

fun close_sum :: "(expr \<times> binop) option \<Rightarrow> expr \<Rightarrow> expr" where
  "close_sum None t = t"
| "close_sum (Some (s, op)) t = BinOp op s t"

text \<open>
  \<open>climb\<close> folds the factors from the left: \<open>s\<close> is the sum so far with its pending
  \<^verbatim>\<open>+\<close> or \<^verbatim>\<open>-\<close>, \<open>t\<close> the term being built: \<^verbatim>\<open>*\<close>, \<^verbatim>\<open>/\<close>, \<^verbatim>\<open>//\<close> bind tighter than
  \<^verbatim>\<open>+\<close>, \<^verbatim>\<open>-\<close>, and both levels associate to the left.
\<close>

fun climb :: "(expr \<times> binop) option \<Rightarrow> expr \<Rightarrow> (binop \<times> expr) list \<Rightarrow> expr" where
  "climb s t [] = close_sum s t"
| "climb s t ((op, f) # r) =
     (if op = Add \<or> op = Sub then climb (Some (close_sum s t, op)) f r
      else climb s (BinOp op t f) r)"

definition parse_expr :: "item list \<Rightarrow> expr option" where
  "parse_expr its =
     (case primaries None its of
        None \<Rightarrow> None
      | Some ps \<Rightarrow>
          (case split_binops False ps of
             (c, cs) \<Rightarrow>
               (case (factor c, those (map (\<lambda>(t, ch). map_option (Pair (binop_of t)) (factor ch)) cs)) of
                  (Some f, Some fs) \<Rightarrow> Some (climb None f fs)
                | _ \<Rightarrow> None)))"

text \<open>
  What stands between a pair of parentheses: nothing, an expression, or (legal only as
  the argument of a call) a starred expression.
\<close>

fun parse_group :: "item list \<Rightarrow> (argkind \<times> expr) option option" where
  "parse_group [] = Some None"
| "parse_group (IOp TStar # r) = map_option (\<lambda>e. Some (Starred, e)) (parse_expr r)"
| "parse_group (IOp TDStar # r) = map_option (\<lambda>e. Some (DoubleStarred, e)) (parse_expr r)"
| "parse_group its = map_option (\<lambda>e. Some (Plain, e)) (parse_expr its)"

fun item_of :: "token \<Rightarrow> item" where
  "item_of (TInt n) = IAtom (Num (int n))"
| "item_of (TFloat s) = IAtom (FloatLit s)"
| "item_of TEllipsis = IAtom EllipsisLit"
| "item_of t = IOp t"

text \<open>
  \<open>nest\<close> matches the parentheses: \<open>outer\<close> is the stack of the enclosing levels and
  \<open>cur\<close> the current one, both with their items in reverse. A closing parenthesis
  parses the current level and makes it a group of the enclosing one.
\<close>

fun nest :: "item list list \<Rightarrow> item list \<Rightarrow> token list \<Rightarrow> expr option" where
  "nest [] cur [] = parse_expr (rev cur)"
| "nest (p # outer) cur [] = None"
| "nest outer cur (TLPar # ts) = nest (cur # outer) [] ts"
| "nest [] cur (TRPar # ts) = None"
| "nest (p # outer) cur (TRPar # ts) =
     (case parse_group (rev cur) of
        None \<Rightarrow> None
      | Some g \<Rightarrow> nest outer (IGroup g # p) ts)"
| "nest outer cur (t # ts) = nest outer (item_of t # cur) ts"

definition parse :: "ustr \<Rightarrow> expr option" where
  "parse s = (case tokenize s of None \<Rightarrow> None | Some ts \<Rightarrow> nest [] [] ts)"

text \<open>
  The values an expression over the alphabet can have. \<open>'f\<close> stands for Python's
  \<^verbatim>\<open>float\<close> (and the \<^verbatim>\<open>complex\<close> that \<^verbatim>\<open>**\<close> can produce from floats); the only tuple
  that can be built is the empty one.
\<close>

datatype 'f pyval = PyInt int | PyFloat 'f | PyTuple | PyEllipsis

text \<open>
  The floating-point operations, taken as parameters: the value of a literal, the float
  that equals an integer of magnitude below \<open>2 ^ 53\<close>, negation, and a binary operator
  applied to two numbers of which one is a float, or to two integers when the result is a
  float (\<^verbatim>\<open>/\<close> by a nonzero divisor, \<^verbatim>\<open>**\<close> with a negative exponent and a nonzero base).
  The quotient of two integers is correctly rounded, so where it is an integer below
  \<open>2 ^ 53\<close> in magnitude it is that integer as a float.
\<close>

record 'f float_ops =
  float_lit :: "ustr \<Rightarrow> 'f"
  float_of_int :: "int \<Rightarrow> 'f"
  float_neg :: "'f \<Rightarrow> 'f"
  float_binop :: "binop \<Rightarrow> 'f pyval \<Rightarrow> 'f pyval \<Rightarrow> exn + 'f"

fun py_unop :: "'f float_ops \<Rightarrow> unop \<Rightarrow> 'f pyval \<Rightarrow> exn + 'f pyval" where
  "py_unop F UAdd (PyInt x) = Inr (PyInt x)"
| "py_unop F USub (PyInt x) = Inr (PyInt (- x))"
| "py_unop F UAdd (PyFloat x) = Inr (PyFloat x)"
| "py_unop F USub (PyFloat x) = Inr (PyFloat (float_neg F x))"
| "py_unop F _ _ = Inl TypeError"

text \<open>
  A sequence is repeated by a count that fits \<^verbatim>\<open>Py_ssize_t\<close> (64 bits here); the empty
  tuple stays empty.
\<close>

definition repeat_tuple :: "int \<Rightarrow> exn + 'f pyval" where
  "repeat_tuple n =
     (if - (2 ^ 63) \<le> n \<and> n < 2 ^ 63 then Inr PyTuple else Inl OverflowError)"

definition float_result :: "exn + 'f \<Rightarrow> exn + 'f pyval" where
  "float_result r = (case r of Inl e \<Rightarrow> Inl e | Inr x \<Rightarrow> Inr (PyFloat x))"

fun py_binop :: "'f float_ops \<Rightarrow> binop \<Rightarrow> 'f pyval \<Rightarrow> 'f pyval \<Rightarrow> exn + 'f pyval" where
  "py_binop F op (PyInt x) (PyInt y) =
     (case op of
        Add \<Rightarrow> Inr (PyInt (x + y))
      | Sub \<Rightarrow> Inr (PyInt (x - y))
      | Mult \<Rightarrow> Inr (PyInt (x * y))
      | FloorDiv \<Rightarrow> if y = 0 then Inl ZeroDivisionError else Inr (PyInt (x div y))
      | Div \<Rightarrow>
          if y = 0 then Inl ZeroDivisionError
          else if y dvd x \<and> \<bar>x div y\<bar> < 2 ^ 53 then Inr (PyFloat (float_of_int F (x div y)))
          else float_result (float_binop F Div (PyInt x) (PyInt y))
      | Pow \<Rightarrow>
          if 0 \<le> y then Inr (PyInt (x ^ nat y))
          else if x = 0 then Inl ZeroDivisionError
          else float_result (float_binop F Pow (PyInt x) (PyInt y)))"
| "py_binop F op (PyInt x) (PyFloat y) = float_result (float_binop F op (PyInt x) (PyFloat y))"
| "py_binop F op (PyFloat x) (PyInt y) = float_result (float_binop F op (PyFloat x) (PyInt y))"
| "py_binop F op (PyFloat x) (PyFloat y) =
     float_result (float_binop F op (PyFloat x) (PyFloat y))"
| "py_binop F op PyTuple PyTuple = (if op = Add then Inr PyTuple else Inl TypeError)"
| "py_binop F op PyTuple (PyInt n) = (if op = Mult then repeat_tuple n else Inl TypeError)"
| "py_binop F op (PyInt n) PyTuple = (if op = Mult then repeat_tuple n else Inl TypeError)"
| "py_binop F op _ _ = Inl TypeError"

text \<open>
  Evaluation is left to right and stops at the first exception. A call evaluates the
  callee and the argument and then fails: no value here is callable.
\<close>

fun eval_expr :: "'f float_ops \<Rightarrow> expr \<Rightarrow> exn + 'f pyval" where
  "eval_expr F (Num n) = Inr (PyInt n)"
| "eval_expr F (FloatLit s) = Inr (PyFloat (float_lit F s))"
| "eval_expr F EllipsisLit = Inr PyEllipsis"
| "eval_expr F EmptyTuple = Inr PyTuple"
| "eval_expr F (UnaryOp op e) =
     (case eval_expr F e of Inl x \<Rightarrow> Inl x | Inr v \<Rightarrow> py_unop F op v)"
| "eval_expr F (BinOp op a b) =
     (case eval_expr F a of
        Inl x \<Rightarrow> Inl x
      | Inr v \<Rightarrow> (case eval_expr F b of Inl x \<Rightarrow> Inl x | Inr w \<Rightarrow> py_binop F op v w))"
| "eval_expr F (Call f None) =
     (case eval_expr F f of Inl x \<Rightarrow> Inl x | Inr v \<Rightarrow> Inl TypeError)"
| "eval_expr F (Call f (Some (k, a))) =
     (case eval_expr F f of
        Inl x \<Rightarrow> Inl x
      | Inr v \<Rightarrow> (case eval_expr F a of Inl x \<Rightarrow> Inl x | Inr w \<Rightarrow> Inl TypeError))"

definition py_eval :: "'f float_ops \<Rightarrow> ustr \<Rightarrow> exn + 'f pyval" where
  "py_eval F s = (case parse s of None \<Rightarrow> Inl SyntaxError | Some e \<Rightarrow> eval_expr F e)"

section \<open>\<^verbatim>\<open>models.safe_math_eval\<close>\<close>

definition allowed_chars :: ustr where
  "allowed_chars = str ''0123456789+-*(). /''"

text \<open>
  The loop over the characters: it raises at the first one that is not allowed, before
  \<^verbatim>\<open>eval\<close> runs.
\<close>

fun check_chars :: "ustr \<Rightarrow> exn + unit" where
  "check_chars [] = Inr ()"
| "check_chars (char # string) =
     (if char \<notin> set allowed_chars then Inl (Exception ''Unsafe eval'')
      else check_chars string)"

definition safe_math_eval :: "'f float_ops \<Rightarrow> ustr \<Rightarrow> exn + 'f pyval" where
  "safe_math_eval F string =
     (case check_chars string of
        Inl e \<Rightarrow> Inl e
      | Inr _ \<Rightarrow> py_eval F string)"

section \<open>The regular expression of \<^verbatim>\<open>extract_info\<close>\<close>

text \<open>
  \<^verbatim>\<open>\s\<close> in a \<^verbatim>\<open>str\<close> pattern is Unicode whitespace, the same characters
  \<^verbatim>\<open>str.strip()\<close> removes.
\<close>

definition is_space :: "nat \<Rightarrow> bool" where
  "is_space c \<longleftrightarrow>
     (9 \<le> c \<and> c \<le> 13) \<or> (28 \<le> c \<and> c \<le> 32) \<or> c = 133 \<or> c = 160 \<or> c = 5760
     \<or> (8192 \<le> c \<and> c \<le> 8202) \<or> c = 8232 \<or> c = 8233 \<or> c = 8239 \<or> c = 8287 \<or> c = 12288"

text \<open>
  The letter class of the pattern: the ranges a to z and A to Z, the range from U+00C0
  to U+00FF, and U+00F1 and U+00D1 (which lie in that range).
\<close>

definition letter :: "nat \<Rightarrow> bool" where
  "letter c \<longleftrightarrow>
     (97 \<le> c \<and> c \<le> 122) \<or> (65 \<le> c \<and> c \<le> 90) \<or> (192 \<le> c \<and> c \<le> 255) \<or> c = 241 \<or> c = 209"

definition letter_or_space :: "nat \<Rightarrow> bool" where
  "letter_or_space c \<longleftrightarrow> letter c \<or> is_space c"

text \<open>\<^verbatim>\<open>[0-9-.\+\*\/\(\)]\<close>: a digit or one of \<^verbatim>\<open>- . + * / ( )\<close>.\<close>

definition amount_char :: "nat \<Rightarrow> bool" where
  "amount_char c \<longleftrightarrow>
     is_digit c \<or> c = 45 \<or> c = 46 \<or> c = 43 \<or> c = 42 \<or> c = 47 \<or> c = 40 \<or> c = 41"

text \<open>
  The constructs the pattern uses: \<^verbatim>\<open>[...]+\<close> (greedy), concatenation, \<^verbatim>\<open>(?:...)?\<close>
  (greedy), a capturing group, and \<^verbatim>\<open>$\<close>.
\<close>

datatype regex =
    Plus "nat \<Rightarrow> bool"
  | Seq regex regex
  | Opt regex
  | Group nat regex
  | Dollar

text \<open>
  Backtracking as a list of successes: \<open>rmatch r (s, g)\<close> lists, in the order in which
  Python's matcher tries them, the ways \<open>r\<close> can match at the front of \<open>s\<close>, each as
  the rest of the input and the groups captured so far. \<^verbatim>\<open>+\<close> tries the longest run
  first; \<^verbatim>\<open>?\<close> tries its body before skipping it; \<^verbatim>\<open>$\<close> holds at the end of the string
  and before a newline (code point 10) that ends it.
\<close>

type_synonym groups = "ustr option list"

fun rmatch :: "regex \<Rightarrow> ustr \<times> groups \<Rightarrow> (ustr \<times> groups) list" where
  "rmatch (Plus p) (s, g) =
     map (\<lambda>k. (drop k s, g)) (rev [1 ..< Suc (length (takeWhile p s))])"
| "rmatch (Seq a b) x = concat (map (rmatch b) (rmatch a x))"
| "rmatch (Opt a) x = rmatch a x @ [x]"
| "rmatch (Group n a) (s, g) =
     map (\<lambda>(s', g'). (s', g'[n := Some (take (length s - length s') s)])) (rmatch a (s, g))"
| "rmatch Dollar (s, g) = (if s = [] \<or> s = [10] then [(s, g)] else [])"

definition pattern :: regex where
  "pattern =
     Seq (Group 1 (Plus letter_or_space))
    (Seq (Plus is_space)
    (Seq (Group 2 (Plus amount_char))
    (Seq (Opt (Seq (Plus is_space) (Group 3 (Plus letter))))
    (Seq (Opt (Seq (Plus is_space) (Group 4 (Plus letter))))
    (Seq (Opt (Seq (Plus is_space) (Group 5 (Plus letter))))
     Dollar)))))"

text \<open>
  \<^verbatim>\<open>pattern.match(input_string)\<close>: the first success, as the list of its groups (index 0
  is not used); a group that took no part is \<open>None\<close>.
\<close>

definition re_match :: "ustr \<Rightarrow> groups option" where
  "re_match input_string =
     (case rmatch pattern (input_string, [None, None, None, None, None, None]) of
        [] \<Rightarrow> None
      | (rest, g) # _ \<Rightarrow> Some g)"

definition strip :: "ustr \<Rightarrow> ustr" where
  "strip s = rev (dropWhile is_space (rev (dropWhile is_space s)))"

section \<open>What the pattern accepts\<close>

text \<open>
  The pattern read as a relation, without the matcher's order: \<open>accepts r (s, g) (s', g')\<close>
  holds when \<open>r\<close> can match a prefix of \<open>s\<close> leaving \<open>s'\<close> and turning the groups \<open>g\<close>
  into \<open>g'\<close>.
\<close>

fun accepts :: "regex \<Rightarrow> ustr \<times> groups \<Rightarrow> ustr \<times> groups \<Rightarrow> bool" where
  "accepts (Plus p) (s, g) (s', g') \<longleftrightarrow>
     g' = g \<and> (\<exists>w. w \<noteq> [] \<and> list_all p w \<and> s = w @ s')"
| "accepts (Seq a b) x z \<longleftrightarrow> (\<exists>y. accepts a x y \<and> accepts b y z)"
| "accepts (Opt a) x y \<longleftrightarrow> accepts a x y \<or> y = x"
| "accepts (Group n a) (s, g) (s', g') \<longleftrightarrow>
     (\<exists>h. accepts a (s, g) (s', h) \<and> g' = h[n := Some (take (length s - length s') s)])"
| "accepts Dollar (s, g) y \<longleftrightarrow> y = (s, g) \<and> (s = [] \<or> s = [10])"

abbreviation no_groups :: groups where
  "no_groups \<equiv> [None, None, None, None, None, None]"

text \<open>The part of the pattern after the amount: up to three words, then \<^verbatim>\<open>$\<close>.\<close>

definition pattern_tail :: regex where
  "pattern_tail = Seq (Opt (Seq (Plus is_space) (Group 3 (Plus letter))))
         (Seq (Opt (Seq (Plus is_space) (Group 4 (Plus letter))))
         (Seq (Opt (Seq (Plus is_space) (Group 5 (Plus letter))))
          Dollar))"

text \<open>
  The shape of an accepted line, in words: a non-empty run of letters and whitespace,
  whitespace, a non-empty run of amount characters, at most three words (each
  whitespace followed by letters), and nothing more but possibly one final newline.
\<close>

definition word :: "ustr \<times> ustr \<Rightarrow> bool" where
  "word = (\<lambda>(sp, t). sp \<noteq> [] \<and> list_all is_space sp \<and> t \<noteq> [] \<and> list_all letter t)"

definition shape :: "ustr \<Rightarrow> bool" where
  "shape line \<longleftrightarrow>
     (\<exists>d sp a toks e.
        line = d @ sp @ a @ concat (map (\<lambda>(sp', t). sp' @ t) toks) @ e
        \<and> d \<noteq> [] \<and> list_all letter_or_space d
        \<and> sp \<noteq> [] \<and> list_all is_space sp
        \<and> a \<noteq> [] \<and> list_all amount_char a
        \<and> length toks \<le> 3 \<and> list_all word toks
        \<and> (e = [] \<or> e = [10]))"

text \<open>An instance of the float operations that computes nothing.\<close>

definition opaque_floats :: "unit float_ops" where
  "opaque_floats =
     \<lparr>float_lit = (\<lambda>_. ()), float_of_int = (\<lambda>_. ()), float_neg = (\<lambda>_. ()),
      float_binop = (\<lambda>_ _ _. Inr ())\<rparr>"

section \<open>\<^verbatim>\<open>FireFlyTelegram.extract_info\<close>\<close>

datatype kind = withdrawal | deposit | transfer

text \<open>The dictionary \<^verbatim>\<open>extract_info\<close> returns and \<^verbatim>\<open>new_transaction\<close> consumes.\<close>

record 'f info =
  description :: ustr
  number :: "'f pyval"
  category :: "ustr option"
  source :: "ustr option"
  destination :: "ustr option"
  type :: kind

text \<open>Exceptions propagate: the first \<open>Inl\<close> ends the computation.\<close>

definition bind :: "exn + 'a \<Rightarrow> ('a \<Rightarrow> exn + 'b) \<Rightarrow> exn + 'b" where
  "bind x f = (case x of Inl e \<Rightarrow> Inl e | Inr v \<Rightarrow> f v)"

text \<open>\<^verbatim>\<open>d[k]\<close> on a dictionary.\<close>

definition getitem :: "('k \<rightharpoonup> 'v) \<Rightarrow> 'k \<Rightarrow> exn + 'v" where
  "getitem d k = (case d k of None \<Rightarrow> Inl KeyError | Some v \<Rightarrow> Inr v)"

text \<open>\<^verbatim>\<open>match.group(n)\<close> of a group that must be a string, and \<^verbatim>\<open>s[0]\<close>.\<close>

definition group :: "groups \<Rightarrow> nat \<Rightarrow> exn + ustr" where
  "group m n = (case m ! n of None \<Rightarrow> Inl TypeError | Some s \<Rightarrow> Inr s)"

definition first_char :: "ustr \<Rightarrow> exn + nat" where
  "first_char s = (case s of [] \<Rightarrow> Inl IndexError | c # _ \<Rightarrow> Inr c)"

text \<open>\<^verbatim>\<open>x in names\<close> for \<open>x\<close> a string or \<^verbatim>\<open>None\<close> and \<open>names\<close> a list of strings.\<close>

definition py_in :: "ustr option \<Rightarrow> ustr list \<Rightarrow> bool" where
  "py_in x names = (case x of None \<Rightarrow> False | Some a \<Rightarrow> a \<in> set names)"

text \<open>
  \<^verbatim>\<open>resolve(token) if token is not None else default\<close>, the shape of the four account
  assignments.
\<close>

definition if_given ::
  "ustr option \<Rightarrow> (ustr \<Rightarrow> exn + ustr) \<Rightarrow> exn + ustr option \<Rightarrow> exn + ustr option" where
  "if_given token resolve otherwise =
     (case token of
        Some t \<Rightarrow> bind (resolve t) (\<lambda>name. Inr (Some name))
      | None \<Rightarrow> otherwise)"

definition default_account :: "bot \<Rightarrow> ustr \<Rightarrow> exn + ustr option" where
  "default_account self user = bind (getitem (default_accounts self) user) (\<lambda>a. Inr (Some a))"

definition classify :: "ustr list \<Rightarrow> ustr option \<Rightarrow> ustr option \<Rightarrow> kind" where
  "classify assets src dst =
     (if py_in src assets \<and> \<not> py_in dst assets then withdrawal
      else if \<not> py_in src assets \<and> py_in dst assets then deposit
      else transfer)"

text \<open>
  The \<^verbatim>\<open>if match.group(2)[0] == '+'\<close> statement: it assigns \<^verbatim>\<open>destination\<close> then
  \<^verbatim>\<open>source\<close> under a plus sign (code point 43), \<^verbatim>\<open>source\<close> then \<^verbatim>\<open>destination\<close>
  otherwise; the result is the pair (source, destination).
\<close>

definition resolve_accounts ::
  "(ustr \<Rightarrow> ustr) \<Rightarrow> bot \<Rightarrow> groups \<Rightarrow> nat \<Rightarrow> ustr \<Rightarrow> exn + ustr option \<times> ustr option" where
  "resolve_accounts slugify self m sign user =
     (if sign = 43 then
        bind (if_given (m ! 4) (\<lambda>t. get_destination_account slugify self t user)
                (default_account self user)) (\<lambda>dst.
        bind (if_given (m ! 5) (\<lambda>t. get_source_account slugify self t user) (Inr None)) (\<lambda>src.
        Inr (src, dst)))
      else
        bind (if_given (m ! 4) (\<lambda>t. get_source_account slugify self t user)
                (default_account self user)) (\<lambda>src.
        bind (if_given (m ! 5) (\<lambda>t. get_destination_account slugify self t user) (Inr None))
          (\<lambda>dst.
        Inr (src, dst))))"

definition extract_info ::
  "'f float_ops \<Rightarrow> (ustr \<Rightarrow> ustr) \<Rightarrow> bot \<Rightarrow> ustr \<Rightarrow> ustr \<Rightarrow> exn + 'f info option" where
  "extract_info F slugify self input_string user =
     (case re_match input_string of
        None \<Rightarrow> Inr None
      | Some m \<Rightarrow>
          bind (group m 1) (\<lambda>g1.
          bind (group m 2) (\<lambda>g2.
          bind (first_char g2) (\<lambda>sign.
          bind (resolve_accounts slugify self m sign user) (\<lambda>(src, dst).
          bind (safe_math_eval F g2) (\<lambda>num.
          bind (if_given (m ! 3) (\<lambda>t. get_category slugify self t user) (Inr None)) (\<lambda>cat.
          bind (getitem (asset_accounts self) user) (\<lambda>assets.
          Inr (Some \<lparr>description = strip g1, number = num, category = cat, source = src,
                     destination = dst, type = classify assets src dst\<rparr>)))))))))"


section \<open>The message handlers of \<^verbatim>\<open>handlers.py\<close>\<close>

text \<open>
  What a handler does with a message, as far as the model follows it: it calls
  \<^verbatim>\<open>ff_bot.new_transaction(info, user)\<close> or it sends a text. An exception no
  \<^verbatim>\<open>except\<close> clause catches leaves the handler (\<open>Inl\<close>).
\<close>

datatype 'f action = NewTransaction "'f info" ustr | SendMessage string

text \<open>
  The body of \<^verbatim>\<open>echo_all\<close> after \<^verbatim>\<open>load_session\<close> and \<^verbatim>\<open>load_data\<close>; \<open>self\<close> is the state
  they leave.
\<close>

definition echo_all ::
  "'f float_ops \<Rightarrow> (ustr \<Rightarrow> ustr) \<Rightarrow> bot \<Rightarrow> ustr \<Rightarrow> ustr \<Rightarrow> exn + 'f action" where
  "echo_all F slugify self text user =
     (case extract_info F slugify self text user of
        Inr (Some info) \<Rightarrow> Inr (NewTransaction info user)
      | Inr None \<Rightarrow> Inr (SendMessage ''Invalid Input!'')
      | Inl CategoryError \<Rightarrow>
          Inr (SendMessage ''Add the category to FireFlyIII and run /update before!'')
      | Inl SourceError \<Rightarrow>
          Inr (SendMessage ''Add the source account to FireFlyIII and run /update before!'')
      | Inl DestinationError \<Rightarrow>
          Inr (SendMessage ''Add the destination account to FireFlyIII and run /update before!'')
      | Inl StartError \<Rightarrow> Inr (SendMessage ''Run /start first!'')
      | Inl e \<Rightarrow> Inl e)"



text \<open>
  The message handlers in the order \<^verbatim>\<open>register_handlers\<close> registers them; the library
  runs the first whose filter accepts the message. A command filter accepts a text
  whose command (\<^verbatim>\<open>telebot.util.extract_command\<close>: the first word of a text that starts
  with \<^verbatim>\<open>/\<close>, up to an \<^verbatim>\<open>@\<close>, without the slash) is the handler's. \<^verbatim>\<open>str.isdigit\<close> is a
  parameter.

  \<^verbatim>\<open>send_welcome\<close> and \<^verbatim>\<open>process_url\<close> end with \<^verbatim>\<open>register_next_step_handler\<close>: the next
  message of the chat goes to the handler registered so (\<^verbatim>\<open>process_url\<close>, then
  \<^verbatim>\<open>process_api_key\<close>) and to no message handler.
\<close>

datatype handler =
    H_send_welcome | H_process_url | H_process_api_key | H_send_help | H_update_data
  | H_list_transactions | H_show_balance | H_echo_transfer | H_echo_all





text \<open>The next-step handler a handler registers for the chat, if it registers one.\<close>

fun next_step :: "handler \<Rightarrow> handler option" where
  "next_step H_send_welcome = Some H_process_url"
| "next_step H_process_url = Some H_process_api_key"
| "next_step _ = None"


section \<open>\<^verbatim>\<open>json.dumps\<close> and \<^verbatim>\<open>json.loads\<close> on lists and dictionaries of strings\<close>

text \<open>
  \<^verbatim>\<open>json.dumps\<close> with its defaults (\<^verbatim>\<open>ensure_ascii\<close>, separators \<^verbatim>\<open>", "\<close> and \<^verbatim>\<open>": "\<close>).
  Inside a string, the quote and the backslash are escaped with a backslash, the
  newline, carriage return, tab, form feed and backspace as \<^verbatim>\<open>\n \r \t \f \b\<close>; a
  character from the space to the tilde stands for itself; any other character below
  U+10000 is written \<^verbatim>\<open>\uXXXX\<close> with four lower-case hexadecimal digits, and a character
  from U+10000 on as the two escapes of its surrogate pair.
\<close>

definition hex_digit :: "nat \<Rightarrow> nat" where
  "hex_digit d = (if d < 10 then 48 + d else 87 + d)"

definition u_escape :: "nat \<Rightarrow> ustr" where
  "u_escape n =
     [92, 117, hex_digit (n div 4096 mod 16), hex_digit (n div 256 mod 16),
      hex_digit (n div 16 mod 16), hex_digit (n mod 16)]"

definition escape :: "nat \<Rightarrow> ustr" where
  "escape c =
     (if c = 34 then [92, 34]
      else if c = 92 then [92, 92]
      else if c = 10 then [92, 110]
      else if c = 13 then [92, 114]
      else if c = 9 then [92, 116]
      else if c = 12 then [92, 102]
      else if c = 8 then [92, 98]
      else if 32 \<le> c \<and> c \<le> 126 then [c]
      else if c < 65536 then u_escape c
      else u_escape (55296 + (c - 65536) div 1024 mod 1024)
           @ u_escape (56320 + (c - 65536) mod 1024))"

definition dumps_str :: "ustr \<Rightarrow> ustr" where
  "dumps_str s = 34 # concat (map escape s) @ [34]"

fun join :: "ustr \<Rightarrow> ustr list \<Rightarrow> ustr" where
  "join sep [] = []"
| "join sep [x] = x"
| "join sep (x # y # r) = x @ sep @ join sep (y # r)"

definition dumps_list :: "ustr list \<Rightarrow> ustr" where
  "dumps_list xs = 91 # join [44, 32] (map dumps_str xs) @ [93]"

definition dumps_dict :: "(ustr \<times> ustr) list \<Rightarrow> ustr" where
  "dumps_dict kvs =
     123 # join [44, 32] (map (\<lambda>(k, v). dumps_str k @ [58, 32] @ dumps_str v) kvs) @ [125]"

text \<open>
  \<^verbatim>\<open>json.loads\<close>. \<open>scanstring\<close> reads a string after its opening quote and returns it
  with the rest of the text: it ends at a quote, refuses a control character, and
  decodes the escapes; a \<^verbatim>\<open>\uXXXX\<close> escape of a high surrogate that is followed by a
  \<^verbatim>\<open>\uXXXX\<close> escape of a low surrogate is the one character of that pair.
\<close>

definition hex_value :: "nat \<Rightarrow> nat option" where
  "hex_value c =
     (if 48 \<le> c \<and> c \<le> 57 then Some (c - 48)
      else if 97 \<le> c \<and> c \<le> 102 then Some (c - 87)
      else if 65 \<le> c \<and> c \<le> 70 then Some (c - 55)
      else None)"

definition hex4 :: "ustr \<Rightarrow> nat option" where
  "hex4 s =
     (case s of
        a # b # c # d # _ \<Rightarrow>
          (case (hex_value a, hex_value b, hex_value c, hex_value d) of
             (Some w, Some x, Some y, Some z) \<Rightarrow> Some (4096 * w + 256 * x + 16 * y + z)
           | _ \<Rightarrow> None)
      | _ \<Rightarrow> None)"

definition unescape :: "nat \<Rightarrow> nat option" where
  "unescape e =
     (if e = 34 then Some 34
      else if e = 92 then Some 92
      else if e = 47 then Some 47
      else if e = 98 then Some 8
      else if e = 102 then Some 12
      else if e = 110 then Some 10
      else if e = 114 then Some 13
      else if e = 116 then Some 9
      else None)"

definition scanned :: "nat \<Rightarrow> (ustr \<times> ustr) option \<Rightarrow> (ustr \<times> ustr) option" where
  "scanned c r = map_option (\<lambda>(s, rest). (c # s, rest)) r"

function scanstring :: "ustr \<Rightarrow> (ustr \<times> ustr) option" where
  "scanstring [] = None"
| "scanstring (c # r) =
     (if c = 34 then Some ([], r)
      else if c = 92 then
        (case r of
           [] \<Rightarrow> None
         | e # r' \<Rightarrow>
             if e = 117 then
               (case hex4 r' of
                  None \<Rightarrow> None
                | Some uni \<Rightarrow>
                    if 55296 \<le> uni \<and> uni \<le> 56319 \<and> take 2 (drop 4 r') = [92, 117] then
                      (case hex4 (drop 6 r') of
                         None \<Rightarrow> None
                       | Some uni2 \<Rightarrow>
                           if 56320 \<le> uni2 \<and> uni2 \<le> 57343 then
                             scanned (65536 + ((uni - 55296) * 1024 + (uni2 - 56320)))
                               (scanstring (drop 10 r'))
                           else scanned uni (scanstring (drop 4 r')))
                    else scanned uni (scanstring (drop 4 r')))
             else
               (case unescape e of
                  None \<Rightarrow> None
                | Some d \<Rightarrow> scanned d (scanstring r')))
      else if c < 32 then None
      else scanned c (scanstring r))"
  by pat_completeness auto
termination
  by (relation "measure length") auto

text \<open>
  Between the strings of a text stand single characters (brackets, braces, commas,
  colons) and whitespace (space, tab, newline, carriage return), which is skipped.
\<close>

datatype jtoken = JString ustr | JChar nat

function jtokens :: "ustr \<Rightarrow> jtoken list option" where
  "jtokens [] = Some []"
| "jtokens (c # r) =
     (if c = 32 \<or> c = 9 \<or> c = 10 \<or> c = 13 then jtokens r
      else if c = 34 then
        (case scanstring r of
           None \<Rightarrow> None
         | Some (x, r') \<Rightarrow> map_option ((#) (JString x)) (jtokens r'))
      else map_option ((#) (JChar c)) (jtokens r))"
  by pat_completeness auto
termination
proof -
  have shorter: "length rest \<le> length s" if "scanstring s = Some (x, rest)" for s x rest
    using that
  proof (induction "length s" arbitrary: s x rest rule: less_induct)
    case less
    have step: "length rest \<le> m"
      if "scanstring t = Some (y, rest)" "length t < length s" "length t \<le> m" for t y m
      using less.hyps [OF that(2) that(1)] that(3) by simp
    show ?case
    proof (cases s)
      case Nil
      with less.prems show ?thesis
        by simp
    next
      case (Cons c r)
      with less.prems show ?thesis
        by (auto simp: scanned_def split: if_splits list.splits option.splits elim: step)
    qed
  qed
  show ?thesis
    by (relation "measure length") (auto dest: shorter)
qed

text \<open>
  An array of strings is \<^verbatim>\<open>[\<close>, strings separated by commas (code point 44), \<^verbatim>\<open>]\<close>; an
  object of strings is \<^verbatim>\<open>{\<close>, members \<^verbatim>\<open>key: value\<close> (58 the colon) separated by commas,
  \<^verbatim>\<open>}\<close>. The columns of the data table hold nothing else, and the decoder is modelled
  on these two shapes only: any other text is a \<^verbatim>\<open>ValueError\<close> here.
\<close>

fun array_items :: "jtoken list \<Rightarrow> ustr list option" where
  "array_items [JString x, JChar c] = (if c = 93 then Some [x] else None)"
| "array_items (JString x # JChar c # r) =
     (if c = 44 then map_option ((#) x) (array_items r) else None)"
| "array_items _ = None"

fun object_items :: "jtoken list \<Rightarrow> (ustr \<times> ustr) list option" where
  "object_items [JString k, JChar c, JString v, JChar d] =
     (if c = 58 \<and> d = 125 then Some [(k, v)] else None)"
| "object_items (JString k # JChar c # JString v # JChar d # r) =
     (if c = 58 \<and> d = 44 then map_option ((#) (k, v)) (object_items r) else None)"
| "object_items _ = None"

text \<open>\<^verbatim>\<open>d[k] = v\<close> on a dictionary kept as its items: a present key keeps its place.\<close>

fun dict_set :: "(ustr \<times> ustr) list \<Rightarrow> ustr \<Rightarrow> ustr \<Rightarrow> (ustr \<times> ustr) list" where
  "dict_set [] k v = [(k, v)]"
| "dict_set ((k', v') # d) k v = (if k' = k then (k, v) # d else (k', v') # dict_set d k v)"

definition dict_of :: "(ustr \<times> ustr) list \<Rightarrow> (ustr \<times> ustr) list" where
  "dict_of pairs = foldl (\<lambda>d (k, v). dict_set d k v) [] pairs"

definition loads_list :: "ustr \<Rightarrow> exn + ustr list" where
  "loads_list s =
     (case jtokens s of
        Some [JChar a, JChar b] \<Rightarrow> if a = 91 \<and> b = 93 then Inr [] else Inl ValueError
      | Some (JChar a # r) \<Rightarrow>
          (case array_items r of
             Some xs \<Rightarrow> if a = 91 then Inr xs else Inl ValueError
           | None \<Rightarrow> Inl ValueError)
      | _ \<Rightarrow> Inl ValueError)"

definition loads_dict :: "ustr \<Rightarrow> exn + (ustr \<times> ustr) list" where
  "loads_dict s =
     (case jtokens s of
        Some [JChar a, JChar b] \<Rightarrow> if a = 123 \<and> b = 125 then Inr [] else Inl ValueError
      | Some (JChar a # r) \<Rightarrow>
          (case object_items r of
             Some kvs \<Rightarrow> if a = 123 then Inr (dict_of kvs) else Inl ValueError
           | None \<Rightarrow> Inl ValueError)
      | _ \<Rightarrow> Inl ValueError)"


section \<open>The data table of \<^verbatim>\<open>database.py\<close>\<close>

text \<open>
  A row of the table \<^verbatim>\<open>data\<close>: seven \<^verbatim>\<open>TEXT\<close> columns beside the key \<^verbatim>\<open>user_id\<close>. The
  table is a map from the key to the row: \<^verbatim>\<open>REPLACE INTO\<close> overwrites the row of the key
  and \<^verbatim>\<open>SELECT ... WHERE user_id = ?\<close> reads it.
\<close>

record data_row =
  col_categories :: ustr
  col_source_accounts :: ustr
  col_destination_accounts :: ustr
  col_asset_accounts :: ustr
  col_expense_accounts :: ustr
  col_revenue_accounts :: ustr
  col_account_ids :: ustr

type_synonym data_table = "ustr \<rightharpoonup> data_row"

type_synonym snapshot =
  "ustr list \<times> ustr list \<times> ustr list \<times> ustr list \<times> ustr list \<times> ustr list \<times> (ustr \<times> ustr) list"

definition save_data ::
  "data_table \<Rightarrow> ustr \<Rightarrow> ustr list \<Rightarrow> ustr list \<Rightarrow> ustr list \<Rightarrow> ustr list \<Rightarrow> ustr list \<Rightarrow> ustr list
   \<Rightarrow> (ustr \<times> ustr) list \<Rightarrow> data_table" where
  "save_data db user_id cats srcs dsts assets expenses revenues ids =
     db(user_id \<mapsto>
       \<lparr>col_categories = dumps_list cats, col_source_accounts = dumps_list srcs,
        col_destination_accounts = dumps_list dsts, col_asset_accounts = dumps_list assets,
        col_expense_accounts = dumps_list expenses, col_revenue_accounts = dumps_list revenues,
        col_account_ids = dumps_dict ids\<rparr>)"

definition get_data :: "data_table \<Rightarrow> ustr \<Rightarrow> exn + snapshot option" where
  "get_data db user_id =
     (case db user_id of
        None \<Rightarrow> Inr None
      | Some data \<Rightarrow>
          bind (loads_list (col_categories data)) (\<lambda>d0.
          bind (loads_list (col_source_accounts data)) (\<lambda>d1.
          bind (loads_list (col_destination_accounts data)) (\<lambda>d2.
          bind (loads_list (col_asset_accounts data)) (\<lambda>d3.
          bind (loads_list (col_expense_accounts data)) (\<lambda>d4.
          bind (loads_list (col_revenue_accounts data)) (\<lambda>d5.
          bind (loads_dict (col_account_ids data)) (\<lambda>d6.
          Inr (Some (d0, d1, d2, d3, d4, d5, d6))))))))))"

text \<open>The methods \<^verbatim>\<open>load_data\<close> and \<^verbatim>\<open>save_data\<close> of \<^verbatim>\<open>FireFlyTelegram\<close>.\<close>

definition load_data :: "bot \<Rightarrow> data_table \<Rightarrow> ustr \<Rightarrow> exn + bot" where
  "load_data self db user_id =
     bind (get_data db user_id) (\<lambda>data.
       case data of
         None \<Rightarrow> Inr self
       | Some (d0, d1, d2, d3, d4, d5, d6) \<Rightarrow>
           Inr (self\<lparr>categories := (categories self)(user_id \<mapsto> d0),
                     source_accounts := (source_accounts self)(user_id \<mapsto> d1),
                     destination_accounts := (destination_accounts self)(user_id \<mapsto> d2),
                     asset_accounts := (asset_accounts self)(user_id \<mapsto> d3),
                     expense_accounts := (expense_accounts self)(user_id \<mapsto> d4),
                     revenue_accounts := (revenue_accounts self)(user_id \<mapsto> d5),
                     account_ids := (account_ids self)(user_id \<mapsto> d6)\<rparr>))"

definition self_save_data :: "bot \<Rightarrow> data_table \<Rightarrow> ustr \<Rightarrow> exn + data_table" where
  "self_save_data self db user_id =
     bind (getitem (categories self) user_id) (\<lambda>cats.
     bind (getitem (source_accounts self) user_id) (\<lambda>srcs.
     bind (getitem (destination_accounts self) user_id) (\<lambda>dsts.
     bind (getitem (asset_accounts self) user_id) (\<lambda>assets.
     bind (getitem (expense_accounts self) user_id) (\<lambda>expenses.
     bind (getitem (revenue_accounts self) user_id) (\<lambda>revenues.
     bind (getitem (account_ids self) user_id) (\<lambda>ids.
     Inr (save_data db user_id cats srcs dsts assets expenses revenues ids))))))))"

section \<open>\<^verbatim>\<open>FireFlyTelegram.get_ff_data\<close>\<close>

text \<open>
  What the ledger answers. An entry of a \<^verbatim>\<open>data\<close> array has an \<^verbatim>\<open>id\<close> and, under
  \<^verbatim>\<open>attributes\<close>, a \<^verbatim>\<open>name\<close> and a \<^verbatim>\<open>type\<close>; a response has \<^verbatim>\<open>data\<close> and, under
  \<^verbatim>\<open>meta.pagination\<close>, \<^verbatim>\<open>total_pages\<close>. A part that is missing is \<open>None\<close>, and reading it
  raises. The request itself (\<^verbatim>\<open>requests.get(url, headers, params, timeout).json()\<close>) is
  the parameter \<open>http\<close>, given the URL, the API key of the header and the page.
\<close>

record entry =
  item_id :: "ustr option"
  item_name :: "ustr option"
  item_type :: "ustr option"

record response =
  response_data :: "entry list option"
  total_pages :: "int option"

type_synonym http = "ustr \<Rightarrow> ustr \<Rightarrow> int option \<Rightarrow> exn + response"

definition field :: "'a option \<Rightarrow> exn + 'a" where
  "field x = (case x of None \<Rightarrow> Inl KeyError | Some v \<Rightarrow> Inr v)"

fun more_pages :: "(int \<Rightarrow> exn + response) \<Rightarrow> int list \<Rightarrow> entry list \<Rightarrow> exn + entry list" where
  "more_pages get [] data = Inr data"
| "more_pages get (page # pages) data =
     bind (get page) (\<lambda>r. bind (field (response_data r)) (\<lambda>d. more_pages get pages (data @ d)))"

definition fetch_all_pages :: "http \<Rightarrow> ustr \<Rightarrow> ustr \<Rightarrow> exn + entry list" where
  "fetch_all_pages http key url =
     bind (http url key None) (\<lambda>r.
     bind (field (response_data r)) (\<lambda>data.
     bind (field (total_pages r)) (\<lambda>total.
     more_pages (\<lambda>page. http url key (Some page)) [2 .. total] data)))"

text \<open>\<^verbatim>\<open>[item['attributes'][name] for item in data]\<close> for the attribute \<^verbatim>\<open>name\<close>.\<close>

fun extract_attributes :: "entry list \<Rightarrow> exn + ustr list" where
  "extract_attributes [] = Inr []"
| "extract_attributes (i # data) =
     bind (field (item_name i)) (\<lambda>n. bind (extract_attributes data) (\<lambda>ns. Inr (n # ns)))"

text \<open>\<^verbatim>\<open>{acc['attributes']['name']: acc['id'] for acc in accounts_data}\<close>.\<close>

fun id_dict :: "(ustr \<times> ustr) list \<Rightarrow> entry list \<Rightarrow> exn + (ustr \<times> ustr) list" where
  "id_dict d [] = Inr d"
| "id_dict d (acc # accounts_data) =
     bind (field (item_name acc)) (\<lambda>n. bind (field (item_id acc)) (\<lambda>i.
       id_dict (dict_set d n i) accounts_data))"

text \<open>
  \<^verbatim>\<open>[acc['attributes']['name'] for acc in accounts_data if acc['attributes']['type'] in types]\<close>.
\<close>

fun names_of_type :: "ustr list \<Rightarrow> entry list \<Rightarrow> exn + ustr list" where
  "names_of_type types [] = Inr []"
| "names_of_type types (acc # accounts_data) =
     bind (field (item_type acc)) (\<lambda>t.
       if t \<in> set types then
         bind (field (item_name acc)) (\<lambda>n.
         bind (names_of_type types accounts_data) (\<lambda>ns. Inr (n # ns)))
       else names_of_type types accounts_data)"

text \<open>
  \<open>get_ff_data\<close> returns the state, the table and the exception the \<^verbatim>\<open>except\<close> clause
  logged, if any; \<open>Inl\<close> is an exception that leaves the method. The statements of the
  \<^verbatim>\<open>try\<close> block run in order on the state; the first that raises ends the block with the
  assignments made so far.
\<close>

definition attempt ::
  "exn + 'a \<Rightarrow> bot \<Rightarrow> data_table \<Rightarrow> ('a \<Rightarrow> bot \<times> data_table \<times> exn option)
   \<Rightarrow> bot \<times> data_table \<times> exn option" where
  "attempt x self db continue =
     (case x of Inl e \<Rightarrow> (self, db, Some e) | Inr v \<Rightarrow> continue v)"

definition get_ff_data ::
  "http \<Rightarrow> bot \<Rightarrow> data_table \<Rightarrow> ustr \<Rightarrow> exn + bot \<times> data_table \<times> exn option" where
  "get_ff_data http self db user =
     bind (getitem (ff_api self) user) (\<lambda>key. Inr (
       attempt (bind (getitem (ff_url self) user) (\<lambda>url.
                fetch_all_pages http key (url @ str ''categories''))) self db (\<lambda>categories_data.
       attempt (extract_attributes categories_data) self db (\<lambda>cats.
       let self1 = self\<lparr>categories := (categories self)(user \<mapsto> cats)\<rparr> in
       attempt (bind (getitem (ff_url self1) user) (\<lambda>url.
                fetch_all_pages http key (url @ str ''accounts''))) self1 db (\<lambda>accounts_data.
       attempt (id_dict [] accounts_data) self1 db (\<lambda>ids.
       let self2 = self1\<lparr>account_ids := (account_ids self1)(user \<mapsto> ids)\<rparr> in
       attempt (names_of_type [str ''revenue'', str ''asset''] accounts_data) self2 db (\<lambda>srcs.
       let self3 = self2\<lparr>source_accounts := (source_accounts self2)(user \<mapsto> srcs)\<rparr> in
       attempt (names_of_type [str ''expense'', str ''asset''] accounts_data) self3 db (\<lambda>dsts.
       let self4 = self3\<lparr>destination_accounts := (destination_accounts self3)(user \<mapsto> dsts)\<rparr> in
       attempt (names_of_type [str ''asset''] accounts_data) self4 db (\<lambda>assets.
       let self5 = self4\<lparr>asset_accounts := (asset_accounts self4)(user \<mapsto> assets)\<rparr> in
       attempt (names_of_type [str ''expense''] accounts_data) self5 db (\<lambda>expenses.
       let self6 = self5\<lparr>expense_accounts := (expense_accounts self5)(user \<mapsto> expenses)\<rparr> in
       attempt (names_of_type [str ''revenue''] accounts_data) self6 db (\<lambda>revenues.
       let self7 = self6\<lparr>revenue_accounts := (revenue_accounts self6)(user \<mapsto> revenues)\<rparr> in
       attempt (self_save_data self7 db user) self7 db (\<lambda>db'.
       (self7, db', None)))))))))))))"

section \<open>Example states\<close>

text \<open>
  \<open>fresh\<close>: a user for whom every list is there and empty (the dictionaries as
  \<^verbatim>\<open>send_welcome\<close> initialises them). \<open>household\<close>: a user with two asset accounts, an
  expense account, a revenue account and two categories.
\<close>

definition uid :: ustr where
  "uid = str ''42''"

definition fresh :: bot where
  "fresh =
     \<lparr>ff_url = [uid \<mapsto> []], ff_api = [uid \<mapsto> []], default_accounts = [uid \<mapsto> []],
      categories = [uid \<mapsto> []], source_accounts = [uid \<mapsto> []],
      destination_accounts = [uid \<mapsto> []], asset_accounts = [uid \<mapsto> []],
      expense_accounts = [uid \<mapsto> []], revenue_accounts = [uid \<mapsto> []],
      account_ids = [uid \<mapsto> []]\<rparr>"

definition household :: bot where
  "household =
     \<lparr>ff_url = [uid \<mapsto> str ''http://ledger/api/v1/''], ff_api = [uid \<mapsto> str ''key''],
      default_accounts = [uid \<mapsto> str ''Checking''],
      categories = [uid \<mapsto> [str ''Food'', str ''Income'']],
      source_accounts = [uid \<mapsto> [str ''Checking'', str ''Savings'', str ''Employer'']],
      destination_accounts = [uid \<mapsto> [str ''Checking'', str ''Savings'', str ''Grocer'']],
      asset_accounts = [uid \<mapsto> [str ''Checking'', str ''Savings'']],
      expense_accounts = [uid \<mapsto> [str ''Grocer'']],
      revenue_accounts = [uid \<mapsto> [str ''Employer'']],
      account_ids = [uid \<mapsto> [(str ''Checking'', str ''1''), (str ''Savings'', str ''2''),
                               (str ''Grocer'', str ''3''), (str ''Employer'', str ''4'')]]\<rparr>"

text \<open>A ledger that cannot be reached: every request fails.\<close>

definition failing_http :: http where
  "failing_http = (\<lambda>url key page. Inl RequestException)"

section \<open>The matcher finds exactly what the pattern accepts\<close>

declare accepts.simps [simp del]

lemma plus_runs:
  "(\<exists>k. 1 \<le> k \<and> k \<le> length (takeWhile p s) \<and> s' = drop k s) \<longleftrightarrow>
   (\<exists>w. w \<noteq> [] \<and> list_all p w \<and> s = w @ s')"
proof
  assume "\<exists>k. 1 \<le> k \<and> k \<le> length (takeWhile p s) \<and> s' = drop k s"
  then obtain k where k: "1 \<le> k" "k \<le> length (takeWhile p s)" "s' = drop k s"
    by blast
  have "take k s = take k (takeWhile p s)"
    using k(2) by (metis append_eq_conv_conj takeWhile_dropWhile_id take_append append_take_drop_id take_all min.absorb2 diff_is_0_eq take_0 append_Nil2 length_take)
  then have "list_all p (take k s)"
    by (metis in_set_takeD list_all_iff set_takeWhileD)
  moreover have "take k s \<noteq> []"
    using k(1,2) length_takeWhile_le [of p s] by (cases s) auto
  ultimately show "\<exists>w. w \<noteq> [] \<and> list_all p w \<and> s = w @ s'"
    using k(3) by (metis append_take_drop_id)
next
  assume "\<exists>w. w \<noteq> [] \<and> list_all p w \<and> s = w @ s'"
  then obtain w where w: "w \<noteq> []" "list_all p w" "s = w @ s'"
    by blast
  have "takeWhile p s = w @ takeWhile p s'"
    using w(2,3) by (simp add: list_all_iff takeWhile_append2)
  then have "length w \<le> length (takeWhile p s)"
    by simp
  moreover have "1 \<le> length w"
    using w(1) by (cases w) auto
  ultimately show "\<exists>k. 1 \<le> k \<and> k \<le> length (takeWhile p s) \<and> s' = drop k s"
    using w(3) by (intro exI [of _ "length w"]) simp
qed

lemma rmatch_accepts: "y \<in> set (rmatch r x) \<longleftrightarrow> accepts r x y"
proof (induction r arbitrary: x y)
  case (Plus p)
  obtain s g where x: "x = (s, g)" by (cases x)
  obtain s' g' where y: "y = (s', g')" by (cases y)
  have "y \<in> set (rmatch (Plus p) x) \<longleftrightarrow>
        g' = g \<and> (\<exists>k. 1 \<le> k \<and> k \<le> length (takeWhile p s) \<and> s' = drop k s)"
    by (auto simp: x y)
  with plus_runs [of p s s'] show ?case
    by (simp add: x y accepts.simps)
next
  case (Seq a b)
  then show ?case by (simp add: Bex_def accepts.simps)
next
  case (Opt a)
  then show ?case by (simp add: disj_commute accepts.simps)
next
  case (Group n a)
  obtain s g where x: "x = (s, g)" by (cases x)
  obtain s' g' where y: "y = (s', g')" by (cases y)
  have "y \<in> set (rmatch (Group n a) x) \<longleftrightarrow>
        (\<exists>h. (s', h) \<in> set (rmatch a (s, g)) \<and>
             g' = h[n := Some (take (length s - length s') s)])"
    by (force simp: x y image_iff)
  then show ?case
    by (simp add: Group x y accepts.simps)
next
  case Dollar
  then show ?case by (cases x) (auto simp: accepts.simps)
qed


lemma re_match_Some:
  assumes "re_match line = Some m"
  shows "\<exists>rest. accepts pattern (line, no_groups) (rest, m)"
proof -
  from assms obtain rest ys where "rmatch pattern (line, no_groups) = (rest, m) # ys"
    by (auto simp: re_match_def split: list.splits)
  then have "(rest, m) \<in> set (rmatch pattern (line, no_groups))"
    by simp
  then show ?thesis
    by (auto simp: rmatch_accepts)
qed

lemma re_match_None: "re_match line = None \<longleftrightarrow> (\<forall>y. \<not> accepts pattern (line, no_groups) y)"
proof -
  have "re_match line = None \<longleftrightarrow> set (rmatch pattern (line, no_groups)) = {}"
    by (auto simp: re_match_def split: list.splits)
  then show ?thesis
    by (auto simp: rmatch_accepts [symmetric])
qed

lemma accepts_Group_Plus:
  "accepts (Group n (Plus p)) (s, g) (s', g') \<longleftrightarrow>
     (\<exists>w. w \<noteq> [] \<and> list_all p w \<and> s = w @ s' \<and> g' = g[n := Some w])"
  by (auto simp: accepts.simps)

lemma accepts_word:
  "accepts (Seq (Plus is_space) (Group n (Plus p))) (s, g) (s', g') \<longleftrightarrow>
     (\<exists>sp w. sp \<noteq> [] \<and> list_all is_space sp \<and> w \<noteq> [] \<and> list_all p w \<and> s = sp @ w @ s'
        \<and> g' = g[n := Some w])"
  by (auto simp: accepts.simps(1,2) accepts_Group_Plus)

lemma accepts_Seq_Plus:
  "accepts (Seq (Plus p) t) (s, g) y \<longleftrightarrow>
     (\<exists>w s'. w \<noteq> [] \<and> list_all p w \<and> s = w @ s' \<and> accepts t (s', g) y)"
  by (simp add: accepts.simps(1,2)) blast

lemma accepts_Seq_Group_Plus:
  "accepts (Seq (Group n (Plus p)) t) (s, g) y \<longleftrightarrow>
     (\<exists>w s'. w \<noteq> [] \<and> list_all p w \<and> s = w @ s' \<and> accepts t (s', g[n := Some w]) y)"
  by (simp add: accepts.simps(2) accepts_Group_Plus) blast

lemma accepts_front:
  "accepts (Seq (Group 1 (Plus p)) (Seq (Plus is_space) (Seq (Group 2 (Plus q)) t))) (line, g) y \<longleftrightarrow>
     (\<exists>d sp a s3. line = d @ sp @ a @ s3
        \<and> d \<noteq> [] \<and> list_all p d
        \<and> sp \<noteq> [] \<and> list_all is_space sp
        \<and> a \<noteq> [] \<and> list_all q a
        \<and> accepts t (s3, g[1 := Some d, 2 := Some a]) y)"
  unfolding accepts_Seq_Plus accepts_Seq_Group_Plus by blast

lemma accepts_pattern:
  "accepts pattern (line, g) y \<longleftrightarrow>
     (\<exists>d sp a s3. line = d @ sp @ a @ s3
        \<and> d \<noteq> [] \<and> list_all letter_or_space d
        \<and> sp \<noteq> [] \<and> list_all is_space sp
        \<and> a \<noteq> [] \<and> list_all amount_char a
        \<and> accepts pattern_tail (s3, g[1 := Some d, 2 := Some a]) y)"
  unfolding pattern_def pattern_tail_def [symmetric] by (rule accepts_front)

lemma accepts_optword:
  "accepts (Opt (Seq (Plus is_space) (Group n (Plus letter)))) (s, g) (s', g') \<longleftrightarrow>
     (\<exists>sp w. sp \<noteq> [] \<and> list_all is_space sp \<and> w \<noteq> [] \<and> list_all letter w \<and> s = sp @ w @ s'
        \<and> g' = g[n := Some w])
     \<or> (s' = s \<and> g' = g)"
  by (simp add: accepts.simps(3) accepts_word)

lemma accepts_tail:
  "accepts pattern_tail (s, g) (s', g') \<longleftrightarrow>
     (\<exists>s3 g3 s4 g4.
        accepts (Opt (Seq (Plus is_space) (Group 3 (Plus letter)))) (s, g) (s3, g3)
        \<and> accepts (Opt (Seq (Plus is_space) (Group 4 (Plus letter)))) (s3, g3) (s4, g4)
        \<and> accepts (Opt (Seq (Plus is_space) (Group 5 (Plus letter)))) (s4, g4) (s', g')
        \<and> (s' = [] \<or> s' = [10]))"
  unfolding pattern_tail_def by (auto simp: accepts.simps(2,5))

lemma groups_of_match:
  assumes "accepts pattern (line, no_groups) (rest, m)"
  shows "length m = 6
    \<and> (\<exists>g1. m ! 1 = Some g1 \<and> g1 \<noteq> [] \<and> list_all letter_or_space g1)
    \<and> (\<exists>g2. m ! 2 = Some g2 \<and> g2 \<noteq> [] \<and> list_all amount_char g2)"
  using assms by (auto simp: accepts_pattern accepts_tail accepts_optword)

lemma optword_words:
  assumes "accepts (Opt (Seq (Plus is_space) (Group n (Plus letter)))) (s, g) (s', g')"
  shows "\<exists>l. length l \<le> 1 \<and> list_all word l \<and> s = concat (map (\<lambda>(sp', t). sp' @ t) l) @ s'"
proof -
  from assms consider
    (taken) sp w where "sp \<noteq> []" "list_all is_space sp" "w \<noteq> []" "list_all letter w" "s = sp @ w @ s'"
    | (skipped) "s' = s"
    by (auto simp: accepts_optword)
  then show ?thesis
  proof cases
    case taken
    then show ?thesis
      by (intro exI [of _ "[(sp, w)]"]) (simp add: word_def)
  next
    case skipped
    then show ?thesis
      by (intro exI [of _ "[]"]) simp
  qed
qed

lemma tail_words:
  assumes "accepts pattern_tail (s, g) y"
  shows "\<exists>toks e. s = concat (map (\<lambda>(sp', t). sp' @ t) toks) @ e \<and> length toks \<le> 3
           \<and> list_all word toks \<and> (e = [] \<or> e = [10])"
proof -
  obtain s5 g5 where y: "y = (s5, g5)" by (cases y)
  from assms obtain s3 g3 s4 g4 where
    a3: "accepts (Opt (Seq (Plus is_space) (Group 3 (Plus letter)))) (s, g) (s3, g3)" and
    a4: "accepts (Opt (Seq (Plus is_space) (Group 4 (Plus letter)))) (s3, g3) (s4, g4)" and
    a5: "accepts (Opt (Seq (Plus is_space) (Group 5 (Plus letter)))) (s4, g4) (s5, g5)" and
    e: "s5 = [] \<or> s5 = [10]"
    unfolding y accepts_tail by blast
  from optword_words [OF a3] optword_words [OF a4] optword_words [OF a5]
  obtain l3 l4 l5 where
    l: "length l3 \<le> 1" "list_all word l3" "s = concat (map (\<lambda>(sp', t). sp' @ t) l3) @ s3"
       "length l4 \<le> 1" "list_all word l4" "s3 = concat (map (\<lambda>(sp', t). sp' @ t) l4) @ s4"
       "length l5 \<le> 1" "list_all word l5" "s4 = concat (map (\<lambda>(sp', t). sp' @ t) l5) @ s5"
    by blast
  show ?thesis
    using l e by (intro exI [of _ "l3 @ l4 @ l5"] exI [of _ s5]) simp
qed

lemma optword_take:
  assumes "sp \<noteq> []" "list_all is_space sp" "w \<noteq> []" "list_all letter w"
  shows "accepts (Opt (Seq (Plus is_space) (Group n (Plus letter)))) (sp @ w @ s', g)
           (s', g[n := Some w])"
  using assms unfolding accepts_optword by blast

lemma optword_skip:
  "accepts (Opt (Seq (Plus is_space) (Group n (Plus letter)))) (s, g) (s, g)"
  unfolding accepts_optword by blast

lemma tail_intro:
  assumes "accepts (Opt (Seq (Plus is_space) (Group 3 (Plus letter)))) (s, g) (s3, g3)"
    and "accepts (Opt (Seq (Plus is_space) (Group 4 (Plus letter)))) (s3, g3) (s4, g4)"
    and "accepts (Opt (Seq (Plus is_space) (Group 5 (Plus letter)))) (s4, g4) (s5, g5)"
    and "s5 = [] \<or> s5 = [10]"
  shows "accepts pattern_tail (s, g) (s5, g5)"
  using assms unfolding accepts_tail by blast

lemma words_tail:
  assumes "length toks \<le> 3" "list_all word toks" "e = [] \<or> e = [10]"
  shows "\<exists>y. accepts pattern_tail (concat (map (\<lambda>(sp', t). sp' @ t) toks) @ e, g) y"
proof -
  have "length toks = 0 \<or> length toks = 1 \<or> length toks = 2 \<or> length toks = 3"
    using assms(1) by arith
  then consider "toks = []" | a where "toks = [a]" | a b where "toks = [a, b]"
    | a b c where "toks = [a, b, c]"
    by (auto simp: length_Suc_conv numeral_2_eq_2 numeral_3_eq_3)
  then show ?thesis
  proof cases
    case 1
    have "accepts pattern_tail (e, g) (e, g)"
      by (rule tail_intro [OF optword_skip optword_skip optword_skip assms(3)])
    with 1 show ?thesis by auto
  next
    case 2
    obtain sa ta where a: "a = (sa, ta)" by (cases a)
    have "accepts pattern_tail (sa @ ta @ e, g) (e, g[3 := Some ta])"
      using 2 a assms(2)
      by (intro tail_intro [OF optword_take optword_skip optword_skip assms(3)])
         (auto simp: word_def)
    with 2 a show ?thesis by auto
  next
    case 3
    obtain sa ta sb tb where ab: "a = (sa, ta)" "b = (sb, tb)" by (cases a; cases b)
    have "accepts pattern_tail (sa @ ta @ sb @ tb @ e, g) (e, g[3 := Some ta, 4 := Some tb])"
      using 3 ab assms(2)
      by (intro tail_intro [OF optword_take optword_take optword_skip assms(3)])
         (auto simp: word_def)
    with 3 ab show ?thesis by auto
  next
    case 4
    obtain sa ta sb tb sc tc where abc: "a = (sa, ta)" "b = (sb, tb)" "c = (sc, tc)"
      by (cases a; cases b; cases c)
    have "accepts pattern_tail (sa @ ta @ sb @ tb @ sc @ tc @ e, g)
            (e, g[3 := Some ta, 4 := Some tb, 5 := Some tc])"
      using 4 abc assms(2)
      by (intro tail_intro [OF optword_take optword_take optword_take assms(3)])
         (auto simp: word_def)
    with 4 abc show ?thesis by auto
  qed
qed

lemma re_match_shape: "re_match line \<noteq> None \<longleftrightarrow> shape line"
proof
  assume "re_match line \<noteq> None"
  then obtain y where "accepts pattern (line, no_groups) y"
    by (auto simp: re_match_None)
  then obtain d sp a s3 where
    front: "line = d @ sp @ a @ s3" "d \<noteq> []" "list_all letter_or_space d" "sp \<noteq> []"
      "list_all is_space sp" "a \<noteq> []" "list_all amount_char a" and
    rear: "accepts pattern_tail (s3, no_groups[1 := Some d, 2 := Some a]) y"
    unfolding accepts_pattern by blast
  from tail_words [OF rear] obtain toks e where
    "s3 = concat (map (\<lambda>(sp', t). sp' @ t) toks) @ e" "length toks \<le> 3" "list_all word toks"
    "e = [] \<or> e = [10]"
    by blast
  with front show "shape line"
    unfolding shape_def by blast
next
  assume "shape line"
  then obtain d sp a toks e where
    front: "line = d @ sp @ a @ concat (map (\<lambda>(sp', t). sp' @ t) toks) @ e" "d \<noteq> []"
      "list_all letter_or_space d" "sp \<noteq> []" "list_all is_space sp" "a \<noteq> []"
      "list_all amount_char a" and
    rear: "length toks \<le> 3" "list_all word toks" "e = [] \<or> e = [10]"
    unfolding shape_def by blast
  from words_tail [OF rear] obtain y where
    "accepts pattern_tail (concat (map (\<lambda>(sp', t). sp' @ t) toks) @ e, no_groups[1 := Some d, 2 := Some a]) y"
    by blast
  with front have "accepts pattern (line, no_groups) y"
    unfolding accepts_pattern by blast
  then show "re_match line \<noteq> None"
    unfolding re_match_None by blast
qed

section \<open>Name resolution returns the first candidate with the token's slug\<close>

lemma index_find:
  "(case index (map f xs) y of None \<Rightarrow> None | Some i \<Rightarrow> Some (xs ! i)) = find (\<lambda>c. f c = y) xs"
  by (induction xs) (auto split: option.splits)

lemma lookup_find:
  "lookup slugify not_found names token user =
     (case names user of
        None \<Rightarrow> Inl StartError
      | Some cands \<Rightarrow>
          (case find (\<lambda>c. slugify c = slugify token) cands of
             None \<Rightarrow> Inl not_found
           | Some c \<Rightarrow> Inr c))"
proof (cases "names user")
  case None
  then show ?thesis
    by (simp add: lookup_def)
next
  case (Some cands)
  have "find (\<lambda>c. slugify c = slugify token) cands =
          (case index (map slugify cands) (slugify token) of
             None \<Rightarrow> None
           | Some i \<Rightarrow> Some (cands ! i))"
    by (simp add: index_find)
  with Some show ?thesis
    by (simp add: lookup_def split: option.splits)
qed

text \<open>
  C5. For every token and every user, each of the three resolvers returns the first
  candidate of the user's list whose slug equals the token's slug; when the list is
  there and no candidate matches (in particular when it is empty) it raises its own
  error (\<open>CategoryError\<close>, \<open>SourceError\<close>, \<open>DestinationError\<close>); and it raises
  \<open>StartError\<close> exactly when the user has no list.
\<close>

theorem name_resolution:
  "get_category slugify self token user =
     (case categories self user of
        None \<Rightarrow> Inl StartError
      | Some cands \<Rightarrow>
          (case find (\<lambda>c. slugify c = slugify token) cands of
             None \<Rightarrow> Inl CategoryError
           | Some c \<Rightarrow> Inr c))
   \<and> get_source_account slugify self token user =
     (case source_accounts self user of
        None \<Rightarrow> Inl StartError
      | Some cands \<Rightarrow>
          (case find (\<lambda>c. slugify c = slugify token) cands of
             None \<Rightarrow> Inl SourceError
           | Some c \<Rightarrow> Inr c))
   \<and> get_destination_account slugify self token user =
     (case destination_accounts self user of
        None \<Rightarrow> Inl StartError
      | Some cands \<Rightarrow>
          (case find (\<lambda>c. slugify c = slugify token) cands of
             None \<Rightarrow> Inl DestinationError
           | Some c \<Rightarrow> Inr c))
   \<and> (categories self user = Some [] \<longrightarrow>
        get_category slugify self token user = Inl CategoryError)
   \<and> (source_accounts self user = Some [] \<longrightarrow>
        get_source_account slugify self token user = Inl SourceError)
   \<and> (destination_accounts self user = Some [] \<longrightarrow>
        get_destination_account slugify self token user = Inl DestinationError)
   \<and> (get_category slugify self token user = Inl StartError) = (categories self user = None)
   \<and> (get_source_account slugify self token user = Inl StartError) =
        (source_accounts self user = None)
   \<and> (get_destination_account slugify self token user = Inl StartError) =
        (destination_accounts self user = None)"
  by (auto simp: get_category_def get_source_account_def get_destination_account_def
        lookup_find split: option.splits)

theorem name_resolution_witness:
  "categories fresh uid = Some []
   \<and> get_category id fresh (str ''Food'') uid = Inl CategoryError
   \<and> get_source_account id fresh (str ''Checking'') uid = Inl SourceError
   \<and> get_destination_account id fresh (str ''Grocer'') uid = Inl DestinationError"
  using name_resolution [of id fresh "str ''Food''" uid]
    name_resolution [of id fresh "str ''Checking''" uid]
    name_resolution [of id fresh "str ''Grocer''" uid]
  by (simp add: fresh_def)

section \<open>What \<^verbatim>\<open>extract_info\<close> computes for a line that matches\<close>

lemma bind_simps [simp]: "bind (Inl e) f = Inl e" "bind (Inr v) f = f v"
  by (simp_all add: bind_def)

lemma bind_Inr_iff: "bind x f = Inr y \<longleftrightarrow> (\<exists>v. x = Inr v \<and> f v = Inr y)"
  by (cases x) simp_all

lemma Inr_bind_iff: "Inr y = bind x f \<longleftrightarrow> (\<exists>v. x = Inr v \<and> f v = Inr y)"
  by (cases x) auto

lemma bind_Inl_iff: "bind x f = Inl e \<longleftrightarrow> x = Inl e \<or> (\<exists>v. x = Inr v \<and> f v = Inl e)"
  by (cases x) simp_all

lemma digit_cases:
  "48 \<le> c \<Longrightarrow> c \<le> 57 \<Longrightarrow>
   c = 48 \<or> c = 49 \<or> c = 50 \<or> c = 51 \<or> c = 52 \<or> c = 53 \<or> c = 54 \<or> c = 55 \<or> c = 56
   \<or> c = (57 :: nat)"
  by arith

lemma amount_char_allowed: "amount_char c \<Longrightarrow> c \<in> set allowed_chars"
  using digit_cases [of c]
  by (auto simp: amount_char_def is_digit_def allowed_chars_def str_def)

lemma check_chars_iff:
  "check_chars s =
     (if \<forall>c \<in> set s. c \<in> set allowed_chars then Inr () else Inl (Exception ''Unsafe eval''))"
  by (induction s) auto

lemma safe_math_eval_amount:
  "list_all amount_char g2 \<Longrightarrow> safe_math_eval F g2 = py_eval F g2"
  by (simp add: safe_math_eval_def check_chars_iff list_all_iff amount_char_allowed)

lemma extract_info_matched:
  assumes "re_match line = Some m"
  shows "\<exists>g1 sign rest.
     m ! 1 = Some g1 \<and> g1 \<noteq> [] \<and> list_all letter_or_space g1
     \<and> m ! 2 = Some (sign # rest) \<and> list_all amount_char (sign # rest)
     \<and> extract_info F slugify self line user =
         bind (resolve_accounts slugify self m sign user) (\<lambda>(src, dst).
         bind (py_eval F (sign # rest)) (\<lambda>num.
         bind (if_given (m ! 3) (\<lambda>t. get_category slugify self t user) (Inr None)) (\<lambda>cat.
         bind (getitem (asset_accounts self) user) (\<lambda>assets.
         Inr (Some \<lparr>description = strip g1, number = num, category = cat, source = src,
                    destination = dst, type = classify assets src dst\<rparr>)))))"
proof -
  from re_match_Some [OF assms] obtain rest where "accepts pattern (line, no_groups) (rest, m)"
    by blast
  from groups_of_match [OF this] obtain g1 g2 where
    g: "m ! 1 = Some g1" "g1 \<noteq> []" "list_all letter_or_space g1"
       "m ! 2 = Some g2" "g2 \<noteq> []" "list_all amount_char g2"
    by blast
  from g(5) obtain sign cs where g2: "g2 = sign # cs"
    by (cases g2) auto
  show ?thesis
    using assms g g2 safe_math_eval_amount [OF g(6), of F]
    by (simp add: extract_info_def group_def first_char_def)
qed

lemma extract_info_Some:
  assumes "extract_info F slugify self line user = Inr (Some tx)"
  shows "\<exists>m g1 sign rest src dst num cat assets.
     re_match line = Some m
     \<and> m ! 1 = Some g1 \<and> g1 \<noteq> [] \<and> list_all letter_or_space g1
     \<and> m ! 2 = Some (sign # rest) \<and> list_all amount_char (sign # rest)
     \<and> resolve_accounts slugify self m sign user = Inr (src, dst)
     \<and> py_eval F (sign # rest) = Inr num
     \<and> if_given (m ! 3) (\<lambda>t. get_category slugify self t user) (Inr None) = Inr cat
     \<and> asset_accounts self user = Some assets
     \<and> tx = \<lparr>description = strip g1, number = num, category = cat, source = src,
              destination = dst, type = classify assets src dst\<rparr>"
proof -
  from assms obtain m where m: "re_match line = Some m"
    by (cases "re_match line") (auto simp: extract_info_def)
  from extract_info_matched [OF m, of F slugify self user] obtain g1 sign rest where
    g: "m ! 1 = Some g1" "g1 \<noteq> []" "list_all letter_or_space g1"
       "m ! 2 = Some (sign # rest)" "list_all amount_char (sign # rest)" and
    eq: "extract_info F slugify self line user =
         bind (resolve_accounts slugify self m sign user) (\<lambda>(src, dst).
         bind (py_eval F (sign # rest)) (\<lambda>num.
         bind (if_given (m ! 3) (\<lambda>t. get_category slugify self t user) (Inr None)) (\<lambda>cat.
         bind (getitem (asset_accounts self) user) (\<lambda>assets.
         Inr (Some \<lparr>description = strip g1, number = num, category = cat, source = src,
                    destination = dst, type = classify assets src dst\<rparr>)))))"
    by blast
  from assms have "bind (resolve_accounts slugify self m sign user) (\<lambda>(src, dst).
         bind (py_eval F (sign # rest)) (\<lambda>num.
         bind (if_given (m ! 3) (\<lambda>t. get_category slugify self t user) (Inr None)) (\<lambda>cat.
         bind (getitem (asset_accounts self) user) (\<lambda>assets.
         Inr (Some \<lparr>description = strip g1, number = num, category = cat, source = src,
                    destination = dst, type = classify assets src dst\<rparr>))))) = Inr (Some tx)"
    unfolding eq .
  then obtain src dst where
    acc: "resolve_accounts slugify self m sign user = Inr (src, dst)" and
    r1: "bind (py_eval F (sign # rest)) (\<lambda>num.
         bind (if_given (m ! 3) (\<lambda>t. get_category slugify self t user) (Inr None)) (\<lambda>cat.
         bind (getitem (asset_accounts self) user) (\<lambda>assets.
         Inr (Some \<lparr>description = strip g1, number = num, category = cat, source = src,
                    destination = dst, type = classify assets src dst\<rparr>)))) = Inr (Some tx)"
    by (auto simp: bind_Inr_iff)
  from r1 obtain num where
    num: "py_eval F (sign # rest) = Inr num" and
    r2: "bind (if_given (m ! 3) (\<lambda>t. get_category slugify self t user) (Inr None)) (\<lambda>cat.
         bind (getitem (asset_accounts self) user) (\<lambda>assets.
         Inr (Some \<lparr>description = strip g1, number = num, category = cat, source = src,
                    destination = dst, type = classify assets src dst\<rparr>))) = Inr (Some tx)"
    by (auto simp: bind_Inr_iff)
  from r2 obtain cat where
    cat: "if_given (m ! 3) (\<lambda>t. get_category slugify self t user) (Inr None) = Inr cat" and
    r3: "bind (getitem (asset_accounts self) user) (\<lambda>assets.
         Inr (Some \<lparr>description = strip g1, number = num, category = cat, source = src,
                    destination = dst, type = classify assets src dst\<rparr>)) = Inr (Some tx)"
    by (auto simp: bind_Inr_iff)
  from r3 obtain assets where
    assets: "asset_accounts self user = Some assets" and
    tx: "tx = \<lparr>description = strip g1, number = num, category = cat, source = src,
               destination = dst, type = classify assets src dst\<rparr>"
    by (auto simp: bind_Inr_iff getitem_def split: option.splits)
  from m g acc num cat assets tx show ?thesis
    by blast
qed

lemma extract_info_not_None:
  assumes "re_match line = Some m"
  shows "extract_info F slugify self line user \<noteq> Inr None"
proof
  assume none: "extract_info F slugify self line user = Inr None"
  from extract_info_matched [OF assms, of F slugify self user] obtain g1 sign rest where
    "extract_info F slugify self line user =
       bind (resolve_accounts slugify self m sign user) (\<lambda>(src, dst).
       bind (py_eval F (sign # rest)) (\<lambda>num.
       bind (if_given (m ! 3) (\<lambda>t. get_category slugify self t user) (Inr None)) (\<lambda>cat.
       bind (getitem (asset_accounts self) user) (\<lambda>assets.
       Inr (Some \<lparr>description = strip g1, number = num, category = cat, source = src,
                  destination = dst, type = classify assets src dst\<rparr>)))))"
    by blast
  with none show False
    by (auto simp: bind_Inr_iff Inr_bind_iff)
qed


lemma if_given_Inl:
  "if_given tok resolve otherwise = Inl e \<longleftrightarrow>
     (case tok of Some t \<Rightarrow> resolve t = Inl e | None \<Rightarrow> otherwise = Inl e)"
  by (auto simp: if_given_def bind_Inl_iff split: option.splits)




lemma lookup_Inl: "lookup slugify err names t user = Inl e \<Longrightarrow> e = err \<or> e = StartError"
  by (auto simp: lookup_def split: option.splits)

lemma resolve_accounts_Inl:
  assumes "resolve_accounts slugify self m sign user = Inl e" "default_accounts self user \<noteq> None"
  shows "e = SourceError \<or> e = DestinationError \<or> e = StartError"
proof -
  have d: "default_account self user \<noteq> Inl e"
    using assms(2) by (auto simp: default_account_def getitem_def)
  have s: "get_source_account slugify self t user = Inl e \<Longrightarrow> e = SourceError \<or> e = StartError" for t
    unfolding get_source_account_def by (rule lookup_Inl)
  have t: "get_destination_account slugify self t user = Inl e \<Longrightarrow> e = DestinationError \<or> e = StartError" for t
    unfolding get_destination_account_def by (rule lookup_Inl)
  from assms(1) show ?thesis
    unfolding resolve_accounts_def
    by (auto simp: bind_Inl_iff if_given_Inl d split: if_splits option.splits dest: s t)
qed

lemma echo_all_Inl:
  assumes "extract_info F slugify self line user = Inl e"
  shows "echo_all F slugify self line user =
     (if e = CategoryError then
        Inr (SendMessage ''Add the category to FireFlyIII and run /update before!'')
      else if e = SourceError then
        Inr (SendMessage ''Add the source account to FireFlyIII and run /update before!'')
      else if e = DestinationError then
        Inr (SendMessage ''Add the destination account to FireFlyIII and run /update before!'')
      else if e = StartError then Inr (SendMessage ''Run /start first!'')
      else Inl e)"
  using assms by (cases e) (simp_all add: echo_all_def)

lemma set_strip: "set (strip s) \<subseteq> set s"
  by (auto simp: strip_def dest!: set_dropWhileD)

lemma strip_ends:
  assumes "strip s \<noteq> []"
  shows "\<not> is_space (hd (strip s)) \<and> \<not> is_space (last (strip s))"
proof -
  let ?a = "dropWhile is_space s"
  let ?b = "dropWhile is_space (rev ?a)"
  from assms have b: "?b \<noteq> []"
    by (simp add: strip_def)
  then have "rev ?a \<noteq> []"
    by (metis dropWhile.simps(1))
  then have a: "?a \<noteq> []"
    by simp
  have "last (strip s) = hd ?b"
    using b by (simp add: strip_def last_rev)
  moreover have "\<not> is_space (hd ?b)"
    using b by (rule hd_dropWhile)
  moreover have "hd (strip s) = last ?b"
    using b by (simp add: strip_def hd_rev)
  moreover have "last ?b = last (rev ?a)"
    using b by (metis append_Nil2 last_appendR takeWhile_dropWhile_id)
  moreover have "last (rev ?a) = hd ?a"
    using a by (simp add: last_rev)
  moreover have "\<not> is_space (hd ?a)"
    using a by (rule hd_dropWhile)
  ultimately show ?thesis
    by simp
qed

section \<open>Lines evaluated\<close>

lemmas regex_eval =
  re_match_def pattern_def str_def letter_or_space_def letter_def is_space_def amount_char_def
  is_digit_def

lemmas parse_eval =
  group_def first_char_def resolve_accounts_def if_given_def default_account_def getitem_def
  get_source_account_def get_destination_account_def get_category_def lookup_def household_def
  uid_def safe_math_eval_def allowed_chars_def py_eval_def parse_def is_digit_def dec_def
  parse_expr_def classify_def py_in_def strip_def is_space_def str_def

lemma no_amount: "re_match (str ''just words no amount'') = None"
  by (simp add: regex_eval)

lemma match_minus:
  "re_match (str ''Coffee -5'') =
     Some [None, Some (str ''Coffee''), Some (str ''-5''), None, None, None]"
  by (simp add: regex_eval)

lemma parse_minus:
  "extract_info F id household (str ''Coffee -5'') uid =
     Inr (Some \<lparr>description = str ''Coffee'', number = PyInt (- 5), category = None,
                source = Some (str ''Checking''), destination = None, type = withdrawal\<rparr>)"
  unfolding extract_info_def match_minus by (simp add: parse_eval)

lemma match_blank:
  "re_match (str ''  5'') = Some [None, Some (str '' ''), Some (str ''5''), None, None, None]"
  by (simp add: regex_eval)

lemma parse_blank:
  "extract_info F id household (str ''  5'') uid =
     Inr (Some \<lparr>description = [], number = PyInt 5, category = None,
                source = Some (str ''Checking''), destination = None, type = withdrawal\<rparr>)"
  unfolding extract_info_def match_blank by (simp add: parse_eval)

lemma match_zero:
  "re_match (str ''Coffee 1/0'') =
     Some [None, Some (str ''Coffee''), Some (str ''1/0''), None, None, None]"
  by (simp add: regex_eval)

lemma parse_zero: "extract_info F id household (str ''Coffee 1/0'') uid = Inl ZeroDivisionError"
  unfolding extract_info_def match_zero by (simp add: parse_eval)

lemma match_salary:
  "re_match (str ''Salary +1500 Income Checking'') =
     Some [None, Some (str ''Salary''), Some (str ''+1500''), Some (str ''Income''),
           Some (str ''Checking''), None]"
  by (simp add: regex_eval)

lemma parse_salary:
  "extract_info F id household (str ''Salary +1500 Income Checking'') uid =
     Inr (Some \<lparr>description = str ''Salary'', number = PyInt 1500,
                category = Some (str ''Income''), source = None,
                destination = Some (str ''Checking''), type = deposit\<rparr>)"
  unfolding extract_info_def match_salary by (simp add: parse_eval)

lemma match_drinks:
  "re_match (str ''Coffee 5 Drinks'') =
     Some [None, Some (str ''Coffee''), Some (str ''5''), Some (str ''Drinks''), None, None]"
  by (simp add: regex_eval)

lemma parse_drinks: "extract_info F id household (str ''Coffee 5 Drinks'') uid = Inl CategoryError"
  unfolding extract_info_def match_drinks by (simp add: parse_eval)

lemma match_grocer:
  "re_match (str ''Coffee 5 Food Checking Grocer'') =
     Some [None, Some (str ''Coffee''), Some (str ''5''), Some (str ''Food''),
           Some (str ''Checking''), Some (str ''Grocer'')]"
  by (simp add: regex_eval)

lemma parse_grocer:
  "extract_info F id household (str ''Coffee 5 Food Checking Grocer'') uid =
     Inr (Some \<lparr>description = str ''Coffee'', number = PyInt 5,
                category = Some (str ''Food''), source = Some (str ''Checking''),
                destination = Some (str ''Grocer''), type = withdrawal\<rparr>)"
  unfolding extract_info_def match_grocer by (simp add: parse_eval)

section \<open>The amount\<close>

text \<open>
  C1, as stated, fails: the amount of the returned transaction is not an absolute value.
  For \<^verbatim>\<open>Coffee -5\<close> the parser returns the amount \<open>-5\<close>, the value of the expression
  with its sign.
\<close>

theorem amount_keeps_sign:
  "extract_info opaque_floats id household (str ''Coffee -5'') uid =
     Inr (Some \<lparr>description = str ''Coffee'', number = PyInt (- 5), category = None,
                source = Some (str ''Checking''), destination = None, type = withdrawal\<rparr>)
   \<and> py_eval opaque_floats (str ''-5'') = Inr (PyInt (- 5))
   \<and> (PyInt (- 5) :: unit pyval) \<noteq> PyInt \<bar>- 5\<bar>"
  by (simp add: parse_minus) (simp add: parse_eval)

text \<open>
  C1, amended. For every line the parser accepts, the amount of the returned transaction
  is the value \<^verbatim>\<open>safe_math_eval\<close> (that is, Python's \<^verbatim>\<open>eval\<close>) gives for the whole amount
  expression, the second group of the match with its leading sign; no absolute value is
  taken, so the amount is negative when the expression is.
\<close>

theorem amount_is_evaluated:
  assumes "extract_info F slugify self line user = Inr (Some tx)"
  shows "\<exists>m g2. re_match line = Some m \<and> m ! 2 = Some g2
     \<and> safe_math_eval F g2 = Inr (number tx) \<and> py_eval F g2 = Inr (number tx)"
proof -
  from extract_info_Some [OF assms] obtain m g1 sign rest num cat src dst assets where
    m: "re_match line = Some m" "m ! 2 = Some (sign # rest)"
       "list_all amount_char (sign # rest)" "py_eval F (sign # rest) = Inr num" and
    tx: "tx = \<lparr>description = strip g1, number = num, category = cat, source = src,
               destination = dst, type = classify assets src dst\<rparr>"
    by blast
  have "number tx = num"
    by (simp add: tx)
  with m safe_math_eval_amount [OF m(3), of F] show ?thesis
    by auto
qed

theorem amount_is_evaluated_witness:
  "extract_info opaque_floats id household (str ''Salary +1500 Income Checking'') uid =
     Inr (Some \<lparr>description = str ''Salary'', number = PyInt 1500,
                category = Some (str ''Income''), source = None,
                destination = Some (str ''Checking''), type = deposit\<rparr>)
   \<and> (\<exists>m g2. re_match (str ''Salary +1500 Income Checking'') = Some m \<and> m ! 2 = Some g2
        \<and> safe_math_eval opaque_floats g2 = Inr (PyInt 1500)
        \<and> py_eval opaque_floats g2 = Inr (PyInt 1500))"
  using amount_is_evaluated [OF parse_salary [of opaque_floats]] parse_salary [of opaque_floats]
  by simp

section \<open>The sign rule\<close>



section \<open>The kind of a transaction\<close>

text \<open>
  C3. For every parsed transaction the kind is \<open>withdrawal\<close> exactly when the source is
  among the user's asset accounts and the destination is not, \<open>deposit\<close> exactly when
  the source is not and the destination is, and \<open>transfer\<close> exactly in the two
  remaining cases (both or neither).
\<close>

theorem kind_classification:
  assumes "extract_info F slugify self line user = Inr (Some tx)"
  shows "\<exists>assets. asset_accounts self user = Some assets
     \<and> (type tx = withdrawal \<longleftrightarrow> py_in (source tx) assets \<and> \<not> py_in (destination tx) assets)
     \<and> (type tx = deposit \<longleftrightarrow> \<not> py_in (source tx) assets \<and> py_in (destination tx) assets)
     \<and> (type tx = transfer \<longleftrightarrow> (py_in (source tx) assets \<longleftrightarrow> py_in (destination tx) assets))"
proof -
  from extract_info_Some [OF assms] obtain g1 num cat src dst assets where
    assets: "asset_accounts self user = Some assets" and
    tx: "tx = \<lparr>description = strip g1, number = num, category = cat, source = src,
               destination = dst, type = classify assets src dst\<rparr>"
    by blast
  have "type tx = classify assets (source tx) (destination tx)"
    by (simp add: tx)
  then have "(type tx = withdrawal \<longleftrightarrow> py_in (source tx) assets \<and> \<not> py_in (destination tx) assets)
     \<and> (type tx = deposit \<longleftrightarrow> \<not> py_in (source tx) assets \<and> py_in (destination tx) assets)
     \<and> (type tx = transfer \<longleftrightarrow> (py_in (source tx) assets \<longleftrightarrow> py_in (destination tx) assets))"
    by (simp add: classify_def)
  with assets show ?thesis
    by blast
qed

theorem kind_classification_witness:
  "extract_info opaque_floats id household (str ''Coffee 5 Food Checking Grocer'') uid =
     Inr (Some \<lparr>description = str ''Coffee'', number = PyInt 5,
                category = Some (str ''Food''), source = Some (str ''Checking''),
                destination = Some (str ''Grocer''), type = withdrawal\<rparr>)
   \<and> (\<exists>assets. asset_accounts household uid = Some assets
        \<and> py_in (Some (str ''Checking'')) assets \<and> \<not> py_in (Some (str ''Grocer'')) assets)"
  using kind_classification [OF parse_grocer [of opaque_floats]] parse_grocer [of opaque_floats]
  by auto

section \<open>Failures while parsing\<close>

text \<open>
  C4, as stated, fails: a failure of the amount expression is not a typed error and no
  \<^verbatim>\<open>except\<close> clause of \<^verbatim>\<open>echo_all\<close> catches it. For \<^verbatim>\<open>Coffee 1/0\<close> the parser raises
  \<^verbatim>\<open>ZeroDivisionError\<close>, which leaves the handler.
\<close>

theorem untyped_failure_escapes:
  "extract_info opaque_floats id household (str ''Coffee 1/0'') uid = Inl ZeroDivisionError
   \<and> echo_all opaque_floats id household (str ''Coffee 1/0'') uid = Inl ZeroDivisionError"
  by (simp add: parse_zero echo_all_def)

text \<open>
  C4, amended. For every line and every state in which the user's default account and
  asset accounts are loaded, a failure of \<^verbatim>\<open>extract_info\<close> is either one of
  \<open>CategoryError\<close>, \<open>SourceError\<close>, \<open>DestinationError\<close>, \<open>StartError\<close>, each of which
  \<^verbatim>\<open>echo_all\<close> answers with its own message, or it is the exception Python's \<^verbatim>\<open>eval\<close>
  raised for the amount expression, which \<^verbatim>\<open>echo_all\<close> does not catch.
\<close>

theorem parse_failures:
  assumes "default_accounts self user \<noteq> None" and "asset_accounts self user \<noteq> None"
    and "extract_info F slugify self line user = Inl e"
  shows "e = CategoryError
       \<and> echo_all F slugify self line user =
           Inr (SendMessage ''Add the category to FireFlyIII and run /update before!'')
     \<or> e = SourceError
       \<and> echo_all F slugify self line user =
           Inr (SendMessage ''Add the source account to FireFlyIII and run /update before!'')
     \<or> e = DestinationError
       \<and> echo_all F slugify self line user =
           Inr (SendMessage ''Add the destination account to FireFlyIII and run /update before!'')
     \<or> e = StartError
       \<and> echo_all F slugify self line user = Inr (SendMessage ''Run /start first!'')
     \<or> e \<noteq> CategoryError \<and> e \<noteq> SourceError \<and> e \<noteq> DestinationError \<and> e \<noteq> StartError
       \<and> (\<exists>m g2. re_match line = Some m \<and> m ! 2 = Some g2 \<and> py_eval F g2 = Inl e)
       \<and> echo_all F slugify self line user = Inl e"
proof -
  from assms(3) obtain m where m: "re_match line = Some m"
    by (cases "re_match line") (auto simp: extract_info_def)
  from extract_info_matched [OF m, of F slugify self user] obtain g1 sign rest where
    g2: "m ! 2 = Some (sign # rest)" and
    eq: "extract_info F slugify self line user =
         bind (resolve_accounts slugify self m sign user) (\<lambda>(src, dst).
         bind (py_eval F (sign # rest)) (\<lambda>num.
         bind (if_given (m ! 3) (\<lambda>t. get_category slugify self t user) (Inr None)) (\<lambda>cat.
         bind (getitem (asset_accounts self) user) (\<lambda>assets.
         Inr (Some \<lparr>description = strip g1, number = num, category = cat, source = src,
                    destination = dst, type = classify assets src dst\<rparr>)))))"
    by blast
  have c: "get_category slugify self t user = Inl e \<Longrightarrow> e = CategoryError \<or> e = StartError" for t
    unfolding get_category_def by (rule lookup_Inl)
  have a: "getitem (asset_accounts self) user \<noteq> Inl e"
    using assms(2) by (auto simp: getitem_def)
  from assms(3) have "bind (resolve_accounts slugify self m sign user) (\<lambda>(src, dst).
         bind (py_eval F (sign # rest)) (\<lambda>num.
         bind (if_given (m ! 3) (\<lambda>t. get_category slugify self t user) (Inr None)) (\<lambda>cat.
         bind (getitem (asset_accounts self) user) (\<lambda>assets.
         Inr (Some \<lparr>description = strip g1, number = num, category = cat, source = src,
                    destination = dst, type = classify assets src dst\<rparr>))))) = Inl e"
    unfolding eq .
  then consider
    (accounts) "resolve_accounts slugify self m sign user = Inl e"
    | (amount) "py_eval F (sign # rest) = Inl e"
    | (category) "if_given (m ! 3) (\<lambda>t. get_category slugify self t user) (Inr None) = Inl e"
    using a by (auto simp: bind_Inl_iff)
  then have "e = CategoryError \<or> e = SourceError \<or> e = DestinationError \<or> e = StartError
      \<or> py_eval F (sign # rest) = Inl e"
  proof cases
    case accounts
    from resolve_accounts_Inl [OF this assms(1)] show ?thesis by blast
  next
    case amount
    then show ?thesis by blast
  next
    case category
    then show ?thesis
      by (auto simp: if_given_Inl split: option.splits dest: c)
  qed
  then show ?thesis
    using m g2 echo_all_Inl [OF assms(3)] by auto
qed

theorem parse_failures_witness:
  "default_accounts household uid \<noteq> None \<and> asset_accounts household uid \<noteq> None
   \<and> extract_info opaque_floats id household (str ''Coffee 5 Drinks'') uid = Inl CategoryError
   \<and> echo_all opaque_floats id household (str ''Coffee 5 Drinks'') uid =
       Inr (SendMessage ''Add the category to FireFlyIII and run /update before!'')"
proof -
  have d: "default_accounts household uid \<noteq> None" and a: "asset_accounts household uid \<noteq> None"
    by (simp_all add: household_def)
  from parse_failures [OF d a parse_drinks [of opaque_floats]] d a parse_drinks [of opaque_floats]
  show ?thesis
    by simp
qed

section \<open>Lines without a match\<close>

text \<open>
  C7, as stated, fails: an accepted line need not have a description of one or more
  words. The line of two spaces and \<^verbatim>\<open>5\<close> is accepted with the empty description.
\<close>

theorem empty_description_accepted:
  "extract_info opaque_floats id household (str ''  5'') uid =
     Inr (Some \<lparr>description = [], number = PyInt 5, category = None,
                source = Some (str ''Checking''), destination = None, type = withdrawal\<rparr>)"
  by (rule parse_blank)

text \<open>
  C7, amended. The parser returns \<^verbatim>\<open>None\<close>, and no error, for exactly the lines that do
  not have the shape of the pattern: a non-empty run of letters and whitespace (which
  may be whitespace only), whitespace, a non-empty run of digits and \<^verbatim>\<open>. + - * / ( )\<close>,
  at most three words of letters, each after whitespace, and nothing more but possibly
  one final newline; the letters are a to z, A to Z and U+00C0 to U+00FF. The
  description of an accepted line consists of letters and whitespace and neither
  starts nor ends with whitespace (it may be empty); and
  \<^verbatim>\<open>just words no amount\<close> yields \<^verbatim>\<open>None\<close>.
\<close>

theorem no_match_iff_not_shape:
  "(extract_info F slugify self line user = Inr None \<longleftrightarrow> \<not> shape line)
   \<and> (\<forall>tx. extract_info F slugify self line user = Inr (Some tx) \<longrightarrow>
         list_all letter_or_space (description tx)
         \<and> (description tx = []
            \<or> \<not> is_space (hd (description tx)) \<and> \<not> is_space (last (description tx))))
   \<and> extract_info F slugify self (str ''just words no amount'') user = Inr None"
proof -
  have first: "extract_info F slugify self line user = Inr None \<longleftrightarrow> \<not> shape line"
  proof (cases "re_match line")
    case None
    then show ?thesis
      using re_match_shape [of line] by (simp add: extract_info_def)
  next
    case (Some m)
    then show ?thesis
      using re_match_shape [of line] extract_info_not_None [OF Some, of F slugify self user]
      by simp
  qed
  have second: "list_all letter_or_space (description tx)
         \<and> (description tx = []
            \<or> \<not> is_space (hd (description tx)) \<and> \<not> is_space (last (description tx)))"
    if "extract_info F slugify self line user = Inr (Some tx)" for tx
  proof -
    from extract_info_Some [OF that] obtain g1 num cat src dst assets where
      g1: "list_all letter_or_space g1" and
      tx: "tx = \<lparr>description = strip g1, number = num, category = cat, source = src,
                 destination = dst, type = classify assets src dst\<rparr>"
      by blast
    have d: "description tx = strip g1"
      by (simp add: tx)
    show ?thesis
      using g1 set_strip [of g1] strip_ends [of g1] unfolding d
      by (auto simp: list_all_iff)
  qed
  have third: "extract_info F slugify self (str ''just words no amount'') user = Inr None"
    by (simp add: extract_info_def no_amount)
  from first second third show ?thesis
    by blast
qed

theorem no_match_iff_not_shape_witness:
  "extract_info opaque_floats id household (str ''Coffee -5'') uid =
     Inr (Some \<lparr>description = str ''Coffee'', number = PyInt (- 5), category = None,
                source = Some (str ''Checking''), destination = None, type = withdrawal\<rparr>)
   \<and> shape (str ''Coffee -5'')
   \<and> list_all letter_or_space (str ''Coffee'')
   \<and> \<not> shape (str ''just words no amount'')"
  using no_match_iff_not_shape [of opaque_floats id household "str ''Coffee -5''" uid]
    no_match_iff_not_shape [of opaque_floats id household "str ''just words no amount''" uid]
    parse_minus [of opaque_floats]
  by auto

section \<open>Messages that start with a digit\<close>








section \<open>The evaluator\<close>





section \<open>A refresh that fails\<close>

lemma attempt_Inl [simp]: "attempt (Inl e) self db k = (self, db, Some e)"
  by (simp add: attempt_def)

lemma attempt_Inr [simp]: "attempt (Inr v) self db k = k v"
  by (simp add: attempt_def)

lemma attempt_logged:
  assumes "attempt x self db k = (self', db', Some e)"
    and "\<And>v. x = Inr v \<Longrightarrow> k v = (self', db', Some e) \<Longrightarrow> db' = db"
  shows "db' = db"
  using assms by (cases x) auto

lemma attempt_silent:
  assumes "attempt x self db k = (self', db', None)"
  shows "\<exists>v. x = Inr v \<and> k v = (self', db', None)"
  using assms by (cases x) auto

text \<open>
  C8. Once the API key of the user is read, \<^verbatim>\<open>get_ff_data\<close> raises nothing: a failure of
  any request or of any step that reads the responses is caught and logged. When a
  failure is logged the data table is the one the refresh started with; the table
  changes only when nothing is logged, and then both fetches and every list built from
  them have succeeded and the user's row holds exactly these lists.
\<close>

theorem refresh_failure_keeps_snapshot:
  "(ff_api self user \<noteq> None \<longrightarrow>
      (\<exists>self' db' logged. get_ff_data http self db user = Inr (self', db', logged)))
   \<and> (get_ff_data http self db user = Inl e \<longrightarrow> e = KeyError \<and> ff_api self user = None)
   \<and> (get_ff_data http self db user = Inr (self', db', Some e) \<longrightarrow> db' = db)
   \<and> (get_ff_data http self db user = Inr (self', db', None) \<longrightarrow>
        (\<exists>key url categories_data cats accounts_data ids srcs dsts assets expenses revenues.
           ff_api self user = Some key \<and> ff_url self user = Some url
           \<and> fetch_all_pages http key (url @ str ''categories'') = Inr categories_data
           \<and> extract_attributes categories_data = Inr cats
           \<and> fetch_all_pages http key (url @ str ''accounts'') = Inr accounts_data
           \<and> id_dict [] accounts_data = Inr ids
           \<and> names_of_type [str ''revenue'', str ''asset''] accounts_data = Inr srcs
           \<and> names_of_type [str ''expense'', str ''asset''] accounts_data = Inr dsts
           \<and> names_of_type [str ''asset''] accounts_data = Inr assets
           \<and> names_of_type [str ''expense''] accounts_data = Inr expenses
           \<and> names_of_type [str ''revenue''] accounts_data = Inr revenues
           \<and> db' = save_data db user cats srcs dsts assets expenses revenues ids))"
proof -
  have returns: "\<exists>self' db' logged. get_ff_data http self db user = Inr (self', db', logged)"
    if "ff_api self user \<noteq> None"
  proof -
    from that obtain key where "ff_api self user = Some key"
      by blast
    then obtain r where "get_ff_data http self db user = Inr r"
      by (simp add: get_ff_data_def getitem_def)
    then show ?thesis
      by (cases r) auto
  qed
  have raises: "e = KeyError \<and> ff_api self user = None"
    if "get_ff_data http self db user = Inl e"
    using that by (auto simp: get_ff_data_def getitem_def bind_Inl_iff split: option.splits)
  have logged: "db' = db" if "get_ff_data http self db user = Inr (self', db', Some e)"
  proof -
    from that obtain key where key: "ff_api self user = Some key"
      by (auto simp: get_ff_data_def getitem_def bind_Inr_iff split: option.splits)
    from that show ?thesis
      unfolding get_ff_data_def Let_def
      apply (simp add: key getitem_def)
      apply (erule attempt_logged)+
      apply (simp add: attempt_def split: sum.splits)
      done
  qed
  have silent:
    "\<exists>key url categories_data cats accounts_data ids srcs dsts assets expenses revenues.
           ff_api self user = Some key \<and> ff_url self user = Some url
           \<and> fetch_all_pages http key (url @ str ''categories'') = Inr categories_data
           \<and> extract_attributes categories_data = Inr cats
           \<and> fetch_all_pages http key (url @ str ''accounts'') = Inr accounts_data
           \<and> id_dict [] accounts_data = Inr ids
           \<and> names_of_type [str ''revenue'', str ''asset''] accounts_data = Inr srcs
           \<and> names_of_type [str ''expense'', str ''asset''] accounts_data = Inr dsts
           \<and> names_of_type [str ''asset''] accounts_data = Inr assets
           \<and> names_of_type [str ''expense''] accounts_data = Inr expenses
           \<and> names_of_type [str ''revenue''] accounts_data = Inr revenues
           \<and> db' = save_data db user cats srcs dsts assets expenses revenues ids"
    if "get_ff_data http self db user = Inr (self', db', None)"
  proof -
    from that obtain key where key: "ff_api self user = Some key"
      by (auto simp: get_ff_data_def getitem_def bind_Inr_iff split: option.splits)
    from that show ?thesis
      unfolding get_ff_data_def Let_def
      apply (simp add: key getitem_def)
      apply (drule attempt_silent, clarify)+
      apply (auto simp: bind_Inr_iff self_save_data_def getitem_def split: option.splits)
      done
  qed
  from returns raises logged silent show ?thesis
    by blast
qed

theorem refresh_failure_keeps_snapshot_witness:
  "ff_api household uid \<noteq> None
   \<and> get_ff_data failing_http household Map.empty uid =
       Inr (household, Map.empty, Some RequestException)"
proof -
  have a: "ff_api household uid \<noteq> None"
    by (simp add: household_def)
  have u: "ff_url household uid = Some (str ''http://ledger/api/v1/'')"
    "ff_api household uid = Some (str ''key'')"
    by (simp_all add: household_def)
  have g: "get_ff_data failing_http household Map.empty uid =
       Inr (household, Map.empty, Some RequestException)"
    by (simp add: get_ff_data_def getitem_def u fetch_all_pages_def failing_http_def)
  from refresh_failure_keeps_snapshot [of household uid failing_http Map.empty RequestException
      household Map.empty] a g
  show ?thesis
    by blast
qed

section \<open>Saving a snapshot and loading it again\<close>

















end
